theory Spec2Isabelle
  imports Complex_Main
begin

section \<open>Values, exceptions and artifacts\<close>

text \<open>
  The predictor of \<^verbatim>\<open>ml_training/model_predictor.py\<close> works on a Python dictionary
  decoded from JSON. Its values are modelled by \<open>json\<close>: a number, a string, \<open>None\<close> or a
  dictionary (an association list read with \<open>map_of\<close>; a dictionary has no key twice).
  Booleans and lists are left out. A number of the input is a Python \<open>int\<close> or a finite
  \<open>float\<close>; both are modelled by a real number, and the rounding error of a float is not
  modelled. The range of a float is: a float is below \<open>float_limit\<close> in absolute value, so
  that a number at or beyond \<open>float_limit\<close> is an \<open>int\<close>, and an operation that has to
  turn it into a float raises OverflowError. The result of a regressor is a \<open>pyfloat\<close>,
  which adds the three non-finite floats, since \<open>round\<close> raises on them.
\<close>

datatype json = JNull | JNum real | JStr string | JObj "(string \<times> json) list"

datatype pyfloat = Fin real | PInf | NInf | NaN

datatype error =
    KeyError string
  | TypeError
  | ValueError
  | OverflowError
  | AttributeError
  | FileNotFoundError
  | ArtifactError string

text \<open>
  A pickled artifact is opaque: a regressor maps a feature array to a number or raises, a
  scaler maps a feature array to a feature array or raises.
\<close>

datatype artifact =
    Regressor "json list \<Rightarrow> error + pyfloat"
  | Scaler "json list \<Rightarrow> error + json list"

text \<open>
  The models directory. A pickle file is absent (\<open>None\<close>), or loading it raises or gives
  an artifact. The metadata file is absent or unreadable (\<open>None\<close>), or holds a JSON object,
  of which only the crop list under \<open>label_encoders.crop_type\<close> is used (\<open>None\<close> when
  the object has no such entry).
\<close>

record disk =
  pickles :: "string \<rightharpoonup> (error + artifact)"
  metadata_json :: "string \<rightharpoonup> string list option"

record predictor =
  models_dir :: string
  fallback_mode :: bool
  models :: "string \<rightharpoonup> artifact"
  scalers :: "string \<rightharpoonup> artifact"
  crop_types :: "string list"

section \<open>Python primitives\<close>

text \<open>\<open>d[k]\<close>: a missing key raises KeyError, a value that is no dictionary TypeError.\<close>

fun subscript :: "json \<Rightarrow> string \<Rightarrow> error + json" where
  "subscript (JObj kvs) k = (case map_of kvs k of None \<Rightarrow> Inl (KeyError k) | Some v \<Rightarrow> Inr v)"
| "subscript _ k = Inl TypeError"

text \<open>\<open>input_data[s][k]\<close>\<close>

definition field :: "json \<Rightarrow> string \<Rightarrow> string \<Rightarrow> error + json" where
  "field input_data s k =
     (case subscript input_data s of Inl e \<Rightarrow> Inl e | Inr sect \<Rightarrow> subscript sect k)"

text \<open>An operand of \<open>-\<close>, \<open>/\<close>, \<open><\<close> or \<open>>\<close> against a number: anything but a number raises.\<close>

fun number :: "json \<Rightarrow> error + real" where
  "number (JNum x) = Inr x"
| "number _ = Inl TypeError"

text \<open>
  The range of a float. The largest float is \<open>2 ^ 1024 - 2 ^ 971\<close>; a value rounds to it, or
  to a smaller float, exactly when it is below \<open>2 ^ 1024 - 2 ^ 970\<close> in absolute value.
\<close>

definition float_limit :: real where
  "float_limit = 2 ^ 1024 - 2 ^ 970"

definition in_float_range :: "real \<Rightarrow> bool" where
  "in_float_range x \<longleftrightarrow> \<bar>x\<bar> < float_limit"

text \<open>
  The float that an operation gives for the exact value \<open>x\<close>: the conversion of an \<open>int\<close>
  operand of \<open>-\<close> with a float (\<open>int too large to convert to float\<close>), or the quotient of
  \<open>/\<close> (\<open>integer division result too large for a float\<close>). On floats these
  operations stay in range.
\<close>

definition to_float :: "real \<Rightarrow> error + real" where
  "to_float x = (if in_float_range x then Inr x else Inl OverflowError)"

text \<open>\<open>round(x)\<close> rounds to the nearest integer, a tie to the even one.\<close>

definition py_round :: "real \<Rightarrow> int" where
  "py_round x =
     (let f = \<lfloor>x\<rfloor>; r = x - of_int f
      in if r < 1 / 2 then f else if 1 / 2 < r then f + 1 else if even f then f else f + 1)"

fun round_float :: "pyfloat \<Rightarrow> error + int" where
  "round_float (Fin x) = Inr (py_round x)"
| "round_float NaN = Inl ValueError"
| "round_float PInf = Inl OverflowError"
| "round_float NInf = Inl OverflowError"

text \<open>\<open>round(x, 1)\<close> keeps a float; a non-finite one is returned as it is.\<close>

fun round1 :: "pyfloat \<Rightarrow> pyfloat" where
  "round1 (Fin x) = Fin (of_int (py_round (x * 10)) / 10)"
| "round1 y = y"

fun gt :: "pyfloat \<Rightarrow> real \<Rightarrow> bool" where
  "gt (Fin x) c = (c < x)"
| "gt PInf c = True"
| "gt NInf c = False"
| "gt NaN c = False"

fun lt :: "pyfloat \<Rightarrow> real \<Rightarrow> bool" where
  "lt (Fin x) c = (x < c)"
| "lt PInf c = False"
| "lt NInf c = True"
| "lt NaN c = False"

text \<open>\<open>max(c, x)\<close> and \<open>min(c, x)\<close> keep the first argument unless the second beats it.\<close>

definition py_max :: "real \<Rightarrow> pyfloat \<Rightarrow> pyfloat" where
  "py_max c x = (if gt x c then x else Fin c)"

definition py_min :: "real \<Rightarrow> pyfloat \<Rightarrow> pyfloat" where
  "py_min c x = (if lt x c then x else Fin c)"

text \<open>\<open>xs.index(x)\<close> for an \<open>x\<close> that is in \<open>xs\<close>: the first position.\<close>

fun index :: "'a list \<Rightarrow> 'a \<Rightarrow> nat" where
  "index [] x = 0"
| "index (y # ys) x = (if y = x then 0 else Suc (index ys x))"

text \<open>
  Sequencing inside a \<open>try\<close> block: the first exception ends the block. \<open>and_then\<close>
  is for steps that read no file, \<open>and_then_io\<close> for steps that carry the list of files
  read.
\<close>

definition and_then :: "error + 'a \<Rightarrow> ('a \<Rightarrow> error + 'b) \<Rightarrow> error + 'b" where
  "and_then m f = (case m of Inl e \<Rightarrow> Inl e | Inr x \<Rightarrow> f x)"

definition and_then_io ::
  "(error + 'a) \<times> string list \<Rightarrow> ('a \<Rightarrow> string list \<Rightarrow> (error + 'b) \<times> string list)
     \<Rightarrow> (error + 'b) \<times> string list" where
  "and_then_io m f = (case fst m of Inl e \<Rightarrow> (Inl e, snd m) | Inr x \<Rightarrow> f x (snd m))"

text \<open>\<open>joblib.load(path)\<close>; every call is recorded in the list of files read.\<close>

definition joblib_load :: "disk \<Rightarrow> string \<Rightarrow> string list \<Rightarrow> (error + artifact) \<times> string list" where
  "joblib_load dk path rd =
     ((case pickles dk path of None \<Rightarrow> Inl FileNotFoundError | Some c \<Rightarrow> c), rd @ [path])"

text \<open>\<open>scaler.transform(features) if scaler is not None else features\<close>\<close>

fun transform :: "artifact option \<Rightarrow> json list \<Rightarrow> error + json list" where
  "transform None features = Inr features"
| "transform (Some (Scaler f)) features = f features"
| "transform (Some (Regressor f)) features = Inl AttributeError"

text \<open>\<open>model.predict(features_scaled)[0]\<close>\<close>

fun predict :: "artifact \<Rightarrow> json list \<Rightarrow> error + pyfloat" where
  "predict (Regressor f) features = f features"
| "predict (Scaler f) features = Inl AttributeError"

section \<open>Construction of the predictor\<close>

definition default_crop_types :: "string list" where
  "default_crop_types =
     [''rice'', ''wheat'', ''maize'', ''cotton'', ''sugarcane'', ''tomato'', ''potato'',
      ''soybean'', ''barley'', ''sorghum'', ''groundnut'', ''mustard'']"

definition scaler_targets :: "string list" where
  "scaler_targets =
     [''irrigation'', ''nitrogen_fertilizer'', ''phosphorus_fertilizer'',
      ''potassium_fertilizer'', ''yield'', ''yield_increase'']"

text \<open>
  \<open>_load_metadata\<close>: the metadata file when it can be read, else the default metadata
  and fallback mode. The result is the pair of the crop list recorded under
  \<open>label_encoders.crop_type\<close> (if any) and the fallback flag.
\<close>

definition load_metadata :: "disk \<Rightarrow> string \<Rightarrow> string list option \<times> bool" where
  "load_metadata dk dir =
     (case metadata_json dk (dir @ ''/model_metadata.json'') of
        Some m \<Rightarrow> (m, False)
      | None \<Rightarrow> (Some default_crop_types, True))"

text \<open>The loop of \<open>_load_models\<close> over the six targets.\<close>

fun load_scalers ::
  "disk \<Rightarrow> string \<Rightarrow> string list \<Rightarrow> (string \<rightharpoonup> artifact) \<Rightarrow> string list
     \<Rightarrow> (string \<rightharpoonup> artifact) \<times> string list" where
  "load_scalers dk dir [] sc rd = (sc, rd)"
| "load_scalers dk dir (target # ts) sc rd =
     (let path = dir @ ''/scaler_'' @ target @ ''.pkl''
      in if pickles dk path \<noteq> None
         then (case joblib_load dk path rd of
                 (Inr a, rd') \<Rightarrow> load_scalers dk dir ts (sc(target \<mapsto> a)) rd'
               | (Inl e, rd') \<Rightarrow> load_scalers dk dir ts sc rd')
         else load_scalers dk dir ts sc rd)"

text \<open>\<open>__init__\<close> with \<open>_load_models\<close>: \<open>self.models\<close> is created empty and stays so.\<close>

definition new_predictor :: "disk \<Rightarrow> string \<Rightarrow> string list \<Rightarrow> predictor \<times> string list" where
  "new_predictor dk dir rd =
     (case (load_metadata dk dir, load_scalers dk dir scaler_targets Map.empty rd) of
        ((crops, fb), (sc, rd')) \<Rightarrow>
        (\<lparr>models_dir = dir, fallback_mode = fb, models = Map.empty, scalers = sc,
          crop_types = (case crops of Some cs \<Rightarrow> cs | None \<Rightarrow> default_crop_types)\<rparr>, rd'))"

section \<open>Feature vector\<close>

text \<open>The column order fixed at training time (\<open>model_trainer.py\<close>).\<close>

definition feature_columns :: "string list" where
  "feature_columns =
     [''soil_ph'', ''nitrogen_ppm'', ''phosphorus_ppm'', ''potassium_ppm'', ''organic_matter_pct'',
      ''temperature_c'', ''rainfall_mm'', ''humidity_pct'', ''sunlight_hours'', ''wind_speed_kmh'',
      ''pressure_hpa'', ''growing_days'', ''planting_month'', ''crop_type_encoded'',
      ''ph_stress'', ''nutrient_balance'', ''weather_stress'']"

text \<open>The random draws of one call of \<open>_prepare_features\<close>.\<close>

record feature_draw =
  wind_speed_kmh :: real
  pressure_hpa :: real
  planting_month :: int

text \<open>Lines 113 to 117: a crop that is not in the list is encoded as 0.\<close>

definition encode_crop :: "string list \<Rightarrow> json \<Rightarrow> nat" where
  "encode_crop crops crop_type =
     (case crop_type of
        JStr s \<Rightarrow> if s \<in> set crops then index crops s else 0
      | _ \<Rightarrow> 0)"

text \<open>
  \<open>_prepare_features\<close>. The derived features read \<open>ph\<close>, \<open>nitrogen\<close>, \<open>phosphorus\<close>,
  \<open>potassium\<close> and \<open>temperature\<close> a second time; the values bound at the first read are
  used here. Line 121 subtracts the float 6.5 from \<open>ph\<close>, lines 123 to 125 divide by 25, 18
  and 30, and line 127 divides \<open>abs(temperature - 25)\<close> by 25: each raises TypeError on a
  value that is no number and OverflowError on an \<open>int\<close> too large. The list goes into
  \<open>np.array\<close> as it is; what the scaler and the regressor make of it is theirs to say.
\<close>

definition prepare_features :: "predictor \<Rightarrow> feature_draw \<Rightarrow> json \<Rightarrow> error + json list" where
  "prepare_features self rnd input_data =
     and_then (field input_data ''soil'' ''ph'') (\<lambda>ph.
     and_then (field input_data ''soil'' ''nitrogen'') (\<lambda>n.
     and_then (field input_data ''soil'' ''phosphorus'') (\<lambda>p.
     and_then (field input_data ''soil'' ''potassium'') (\<lambda>k.
     and_then (field input_data ''soil'' ''organicMatter'') (\<lambda>om.
     and_then (field input_data ''weather'' ''temperature'') (\<lambda>t.
     and_then (field input_data ''weather'' ''rainfall'') (\<lambda>rain.
     and_then (field input_data ''weather'' ''humidity'') (\<lambda>hum.
     and_then (field input_data ''weather'' ''sunlightHours'') (\<lambda>sun.
     and_then (subscript input_data ''cropType'') (\<lambda>crop_type.
     and_then (and_then (number ph) to_float) (\<lambda>ph'.
     and_then (and_then (number n) (\<lambda>n'. to_float (n' / 25))) (\<lambda>n25.
     and_then (and_then (number p) (\<lambda>p'. to_float (p' / 18))) (\<lambda>p18.
     and_then (and_then (number k) (\<lambda>k'. to_float (k' / 30))) (\<lambda>k30.
     and_then (and_then (number t) (\<lambda>t'. to_float (\<bar>t' - 25\<bar> / 25))) (\<lambda>weather_stress.
       Inr [ph, n, p, k, om, t, rain, hum, sun,
            JNum (wind_speed_kmh rnd), JNum (pressure_hpa rnd),
            JNum 120, JNum (of_int (planting_month rnd)),
            JNum (of_nat (encode_crop (crop_types self) crop_type)),
            JNum (\<bar>ph' - 6.5\<bar> / 6.5),
            JNum ((n25 + p18 + k30) / 3),
            JNum weather_stress])))))))))))))))"

section \<open>Irrigation\<close>

text \<open>The dictionary returned by \<open>predict_irrigation\<close>; \<open>irrigation_method\<close> is its key \<open>method\<close>.\<close>

record irrigation_result =
  litersPerAcre :: int
  frequency :: string
  irrigation_method :: string
  efficiency :: int
  criticalPeriods :: "string list"

text \<open>Lines 148 to 165: the record built from the raw prediction.\<close>

definition irrigation_record :: "pyfloat \<Rightarrow> error + irrigation_result" where
  "irrigation_record irrigation_liters =
     (case (if gt irrigation_liters 2000 then (''Sprinkler System'', ''Daily'')
            else if gt irrigation_liters 1000 then (''Drip Irrigation'', ''Every 2-3 days'')
            else (''Drip Irrigation'', ''Weekly'')) of (m, fr) \<Rightarrow>
        and_then (round_float irrigation_liters) (\<lambda>r.
          Inr \<lparr>litersPerAcre = max 100 r, frequency = fr, irrigation_method = m,
               efficiency = (if m = ''Drip Irrigation'' then 90 else 75),
               criticalPeriods = [''Flowering stage'', ''Early grain filling'']\<rparr>))"

text \<open>Lines 136 to 146: the raw prediction, with the files read.\<close>

definition irrigation_liters ::
  "predictor \<Rightarrow> disk \<Rightarrow> feature_draw \<Rightarrow> json \<Rightarrow> string list \<Rightarrow> (error + pyfloat) \<times> string list" where
  "irrigation_liters self dk rnd input_data rd =
     and_then_io (prepare_features self rnd input_data, rd) (\<lambda>features rd0.
     and_then_io (joblib_load dk (models_dir self @ ''/rf_irrigation_model.pkl'') rd0) (\<lambda>model rd1.
       (and_then (transform (scalers self ''irrigation'') features) (\<lambda>features_scaled.
          predict model features_scaled), rd1)))"

text \<open>The body of the \<open>try\<close> block of \<open>predict_irrigation\<close>.\<close>

definition irrigation_try ::
  "predictor \<Rightarrow> disk \<Rightarrow> feature_draw \<Rightarrow> json \<Rightarrow> string list
     \<Rightarrow> (error + irrigation_result) \<times> string list" where
  "irrigation_try self dk rnd input_data rd =
     and_then_io (irrigation_liters self dk rnd input_data rd) (\<lambda>liters rd1.
       (irrigation_record liters, rd1))"

definition irrigation_fallback :: irrigation_result where
  "irrigation_fallback =
     \<lparr>litersPerAcre = 1000, frequency = ''Every 2-3 days'', irrigation_method = ''Drip Irrigation'',
      efficiency = 85, criticalPeriods = [''Flowering stage'']\<rparr>"

definition predict_irrigation ::
  "predictor \<Rightarrow> disk \<Rightarrow> feature_draw \<Rightarrow> json \<Rightarrow> string list \<Rightarrow> irrigation_result \<times> string list" where
  "predict_irrigation self dk rnd input_data rd =
     (case irrigation_try self dk rnd input_data rd of
        (Inr r, rd1) \<Rightarrow> (r, rd1)
      | (Inl e, rd1) \<Rightarrow> (irrigation_fallback, rd1))"

section \<open>Fertilizer\<close>

record fertilizer_result =
  nitrogen :: int
  phosphorus :: int
  potassium :: int
  applicationSchedule :: "string list"
  fertilizer_efficiency :: int

text \<open>\<open>max(0, round(model.predict(features_scaled)[0]))\<close>\<close>

definition fertilizer_amount :: "artifact \<Rightarrow> json list \<Rightarrow> error + int" where
  "fertilizer_amount model features_scaled =
     and_then (predict model features_scaled) (\<lambda>raw.
     and_then (round_float raw) (\<lambda>r. Inr (max 0 r)))"

text \<open>The body of the \<open>try\<close> block of \<open>predict_fertilizer\<close>.\<close>

definition fertilizer_try ::
  "predictor \<Rightarrow> disk \<Rightarrow> feature_draw \<Rightarrow> json \<Rightarrow> string list
     \<Rightarrow> (error + fertilizer_result) \<times> string list" where
  "fertilizer_try self dk rnd input_data rd =
     and_then_io (prepare_features self rnd input_data, rd) (\<lambda>features rd0.
     and_then_io (joblib_load dk (models_dir self @ ''/rf_nitrogen_fertilizer_model.pkl'') rd0)
       (\<lambda>n_model rd1.
     and_then_io (joblib_load dk (models_dir self @ ''/rf_phosphorus_fertilizer_model.pkl'') rd1)
       (\<lambda>p_model rd2.
     and_then_io (joblib_load dk (models_dir self @ ''/rf_potassium_fertilizer_model.pkl'') rd2)
       (\<lambda>k_model rd3.
       (and_then (transform (scalers self ''nitrogen_fertilizer'') features) (\<lambda>features_scaled.
        and_then (fertilizer_amount n_model features_scaled) (\<lambda>n.
        and_then (fertilizer_amount p_model features_scaled) (\<lambda>p.
        and_then (fertilizer_amount k_model features_scaled) (\<lambda>k.
          Inr \<lparr>nitrogen = n, phosphorus = p, potassium = k,
               applicationSchedule =
                 [''25% at planting'', ''50% at vegetative stage'', ''25% at flowering''],
               fertilizer_efficiency = 85\<rparr>)))), rd3)))))"

definition fertilizer_fallback :: fertilizer_result where
  "fertilizer_fallback =
     \<lparr>nitrogen = 100, phosphorus = 50, potassium = 60,
      applicationSchedule = [''Split application recommended''],
      fertilizer_efficiency = 80\<rparr>"

definition predict_fertilizer ::
  "predictor \<Rightarrow> disk \<Rightarrow> feature_draw \<Rightarrow> json \<Rightarrow> string list \<Rightarrow> fertilizer_result \<times> string list" where
  "predict_fertilizer self dk rnd input_data rd =
     (case fertilizer_try self dk rnd input_data rd of
        (Inr r, rd1) \<Rightarrow> (r, rd1)
      | (Inl e, rd1) \<Rightarrow> (fertilizer_fallback, rd1))"

section \<open>Yield\<close>

record yield_result =
  expectedYield :: pyfloat
  yieldIncrease :: int
  limitingFactors :: "string list"
  confidence :: int

text \<open>
  Lines 233 to 240: the confidence, from the quality of the input. Line 235 subtracts the
  float 6.5 from \<open>ph\<close>; the comparisons of lines 237 and 239 are exact on every number.
\<close>

definition yield_confidence :: "json \<Rightarrow> error + int" where
  "yield_confidence input_data =
     and_then (and_then (and_then (field input_data ''soil'' ''ph'') number) to_float) (\<lambda>ph.
     and_then (and_then (field input_data ''soil'' ''organicMatter'') number) (\<lambda>om.
     and_then (and_then (field input_data ''weather'' ''rainfall'') number) (\<lambda>rain.
       Inr (85 + (if \<bar>ph - 6.5\<bar> < 0.5 then 5 else 0)
               + (if 3 < om then 3 else 0)
               + (if 50 \<le> rain \<and> rain \<le> 200 then 4 else 0)))))"

text \<open>Lines 242 to 251: the limiting factors; every test is a comparison.\<close>

definition limiting_factors :: "json \<Rightarrow> error + string list" where
  "limiting_factors input_data =
     and_then (and_then (field input_data ''soil'' ''ph'') number) (\<lambda>ph.
     and_then (and_then (field input_data ''soil'' ''organicMatter'') number) (\<lambda>om.
     and_then (and_then (field input_data ''weather'' ''temperature'') number) (\<lambda>t.
     and_then (and_then (field input_data ''weather'' ''rainfall'') number) (\<lambda>rain.
       Inr ((if ph < 5.5 \<or> 8.0 < ph then [''Soil pH imbalance''] else [])
          @ (if om < 2 then [''Low organic matter''] else [])
          @ (if t < 10 \<or> 35 < t then [''Temperature stress''] else [])
          @ (if rain < 50 then [''Water stress''] else []))))))"

text \<open>Lines 230 to 258: the record built from the two raw predictions.\<close>

definition yield_record :: "json \<Rightarrow> pyfloat \<Rightarrow> pyfloat \<Rightarrow> error + yield_result" where
  "yield_record input_data raw_yield raw_increase =
     (let expected_yield = py_max 0 raw_yield;
          yield_increase = py_max 0 (py_min 50 raw_increase)
      in and_then (yield_confidence input_data) (\<lambda>conf.
         and_then (limiting_factors input_data) (\<lambda>lf.
         and_then (round_float yield_increase) (\<lambda>inc.
           Inr \<lparr>expectedYield = round1 expected_yield, yieldIncrease = inc,
                limitingFactors =
                  (if lf \<noteq> [] then lf else [''No major limiting factors detected'']),
                confidence = min 98 conf\<rparr>))))"

text \<open>The body of the \<open>try\<close> block of \<open>predict_yield\<close>.\<close>

definition yield_try ::
  "predictor \<Rightarrow> disk \<Rightarrow> feature_draw \<Rightarrow> json \<Rightarrow> string list
     \<Rightarrow> (error + yield_result) \<times> string list" where
  "yield_try self dk rnd input_data rd =
     and_then_io (prepare_features self rnd input_data, rd) (\<lambda>features rd0.
     and_then_io (joblib_load dk (models_dir self @ ''/rf_yield_model.pkl'') rd0)
       (\<lambda>yield_model rd1.
     and_then_io (joblib_load dk (models_dir self @ ''/rf_yield_increase_model.pkl'') rd1)
       (\<lambda>increase_model rd2.
       (and_then (transform (scalers self ''yield'') features) (\<lambda>features_scaled.
        and_then (predict yield_model features_scaled) (\<lambda>raw_yield.
        and_then (predict increase_model features_scaled) (\<lambda>raw_increase.
          yield_record input_data raw_yield raw_increase))), rd2))))"

definition yield_fallback :: yield_result where
  "yield_fallback =
     \<lparr>expectedYield = Fin 3.5, yieldIncrease = 15,
      limitingFactors = [''Model prediction unavailable''], confidence = 70\<rparr>"

definition predict_yield ::
  "predictor \<Rightarrow> disk \<Rightarrow> feature_draw \<Rightarrow> json \<Rightarrow> string list \<Rightarrow> yield_result \<times> string list" where
  "predict_yield self dk rnd input_data rd =
     (case yield_try self dk rnd input_data rd of
        (Inr r, rd1) \<Rightarrow> (r, rd1)
      | (Inl e, rd1) \<Rightarrow> (yield_fallback, rd1))"

section \<open>Aggregation\<close>

record risk_assessment =
  waterStress :: real
  nutrientDeficiency :: real
  climateRisk :: real
  overallRisk :: string

record economic_impact =
  costReduction :: int
  profitIncrease :: real

record aggregate_result =
  irrigation :: irrigation_result
  fertilizer :: fertilizer_result
  yieldPrediction :: yield_result
  riskAssessment :: risk_assessment
  sustainabilityTip :: string
  economicImpact :: economic_impact

text \<open>
  The random draws of one call of \<open>predict_all\<close>: one set for each call of
  \<open>_prepare_features\<close>, and the draw of \<open>np.random.choice\<close>, which is reduced to a
  position of the catalog of tips.
\<close>

record randomness =
  irrigation_draw :: feature_draw
  fertilizer_draw :: feature_draw
  yield_draw :: feature_draw
  tip_choice :: nat

definition sustainability_tips :: "string list" where
  "sustainability_tips =
     [''Use drip irrigation to save up to 60% water compared to flood irrigation.'',
      ''Implement crop rotation with legumes to naturally fix nitrogen.'',
      ''Apply organic compost to improve soil structure and water retention.'',
      ''Use precision agriculture techniques with IoT sensors for optimal resource usage.'',
      ''Consider companion planting to naturally control pests and improve soil nutrients.'',
      ''Implement rainwater harvesting systems to reduce groundwater dependency.'',
      ''Use cover crops during off-seasons to prevent soil erosion.'',
      ''Apply fertilizers during optimal weather conditions to maximize uptake.'']"

text \<open>Lines 277 to 284.\<close>

definition risk_factors :: "irrigation_result \<Rightarrow> fertilizer_result \<Rightarrow> yield_result \<Rightarrow> string list" where
  "risk_factors irr fert yield_pred =
     (if 2000 < litersPerAcre irr then [''High water requirement''] else [])
   @ (if 150 < nitrogen fert then [''High nitrogen need''] else [])
   @ (if confidence yield_pred < 80 then [''Low prediction confidence''] else [])"

text \<open>Lines 286 to 290.\<close>

definition overall_risk :: "string list \<Rightarrow> string" where
  "overall_risk factors =
     (if 2 < length factors then ''High''
      else if 0 < length factors then ''Medium''
      else ''Low'')"

text \<open>
  Lines 292 to 297: the risk assessment; \<open>t\<close> is the temperature that line 295 reads from
  the input. The liters per acre and the three fertilizer amounts are rounded floats or
  fallback constants, so the quotients of lines 293 and 294 are within the range of a float;
  line 295 multiplies and compares, which is exact on an \<open>int\<close>.
\<close>

definition assess_risk ::
  "irrigation_result \<Rightarrow> fertilizer_result \<Rightarrow> yield_result \<Rightarrow> real \<Rightarrow> risk_assessment" where
  "assess_risk irr fert yield_pred t =
     \<lparr>waterStress = min 100 (max 0 ((of_int (litersPerAcre irr) - 1000) / 20)),
      nutrientDeficiency =
        min 100 (max 0 ((of_int (nitrogen fert + phosphorus fert + potassium fert) - 200) / 5)),
      climateRisk = min 100 (max 0 (\<bar>t - 25\<bar> * 2)),
      overallRisk = overall_risk (risk_factors irr fert yield_pred)\<rparr>"

text \<open>Lines 313 to 320: the economic impact.\<close>

definition estimate_economic_impact ::
  "irrigation_result \<Rightarrow> fertilizer_result \<Rightarrow> yield_result \<Rightarrow> economic_impact" where
  "estimate_economic_impact irr fert yield_pred =
     (let water_saving = (if irrigation_method irr = ''Drip Irrigation'' then 20 else 5);
          fertilizer_saving =
            (if nitrogen fert + phosphorus fert + potassium fert < 200 then 15 else 5)
      in \<lparr>costReduction = water_saving + fertilizer_saving,
          profitIncrease = max 0 (of_int (yieldIncrease yield_pred) * 0.8)\<rparr>)"

text \<open>
  \<open>predict_all\<close>. Line 270 reads \<open>input_data['cropType']\<close> and line 295 reads
  \<open>input_data['weather']['temperature']\<close>, both outside every \<open>try\<close> block.
\<close>

definition predict_all ::
  "predictor \<Rightarrow> disk \<Rightarrow> randomness \<Rightarrow> json \<Rightarrow> string list
     \<Rightarrow> (error + aggregate_result) \<times> string list" where
  "predict_all self dk rnd input_data rd =
     and_then_io (subscript input_data ''cropType'', rd) (\<lambda>crop_type rd0.
       (case predict_irrigation self dk (irrigation_draw rnd) input_data rd0 of (irr, rd1) \<Rightarrow>
       (case predict_fertilizer self dk (fertilizer_draw rnd) input_data rd1 of (fert, rd2) \<Rightarrow>
       (case predict_yield self dk (yield_draw rnd) input_data rd2 of (yield_pred, rd3) \<Rightarrow>
         (and_then (and_then (field input_data ''weather'' ''temperature'') number) (\<lambda>t.
            Inr \<lparr>irrigation = irr, fertilizer = fert, yieldPrediction = yield_pred,
                 riskAssessment = assess_risk irr fert yield_pred t,
                 sustainabilityTip =
                   sustainability_tips ! (tip_choice rnd mod length sustainability_tips),
                 economicImpact = estimate_economic_impact irr fert yield_pred\<rparr>),
          rd3)))))"

section \<open>The lifetime of a process\<close>

text \<open>
  \<open>flask_api.py\<close> and \<open>streamlit_app.py\<close> construct one predictor when the process starts
  and call \<open>predict_all\<close> on it once for each request. \<open>serve_requests\<close> runs the calls in
  order and returns the list of files read; \<open>process_reads\<close> starts from the construction.
\<close>

fun serve_requests ::
  "predictor \<Rightarrow> disk \<Rightarrow> (randomness \<times> json) list \<Rightarrow> string list \<Rightarrow> string list" where
  "serve_requests self dk [] rd = rd"
| "serve_requests self dk ((rnd, input_data) # calls) rd =
     serve_requests self dk calls (snd (predict_all self dk rnd input_data rd))"

definition process_reads :: "disk \<Rightarrow> string \<Rightarrow> (randomness \<times> json) list \<Rightarrow> string list" where
  "process_reads dk dir calls =
     (case new_predictor dk dir [] of (self, rd) \<Rightarrow> serve_requests self dk calls rd)"

text \<open>The files that the three predictors load.\<close>

definition model_paths :: "predictor \<Rightarrow> string set" where
  "model_paths self =
     {models_dir self @ ''/rf_irrigation_model.pkl'',
      models_dir self @ ''/rf_nitrogen_fertilizer_model.pkl'',
      models_dir self @ ''/rf_phosphorus_fertilizer_model.pkl'',
      models_dir self @ ''/rf_potassium_fertilizer_model.pkl'',
      models_dir self @ ''/rf_yield_model.pkl'',
      models_dir self @ ''/rf_yield_increase_model.pkl''}"

section \<open>Well-formed input\<close>

text \<open>
  An agronomic input as the data model describes it: the five soil fields and the four
  weather fields hold numbers, and the crop type is a string.
\<close>

fun is_number :: "error + json \<Rightarrow> bool" where
  "is_number (Inr (JNum x)) = True"
| "is_number _ = False"

fun is_string :: "error + json \<Rightarrow> bool" where
  "is_string (Inr (JStr s)) = True"
| "is_string _ = False"

definition wf_input :: "json \<Rightarrow> bool" where
  "wf_input input_data \<longleftrightarrow>
     is_number (field input_data ''soil'' ''ph'')
   \<and> is_number (field input_data ''soil'' ''nitrogen'')
   \<and> is_number (field input_data ''soil'' ''phosphorus'')
   \<and> is_number (field input_data ''soil'' ''potassium'')
   \<and> is_number (field input_data ''soil'' ''organicMatter'')
   \<and> is_number (field input_data ''weather'' ''temperature'')
   \<and> is_number (field input_data ''weather'' ''rainfall'')
   \<and> is_number (field input_data ''weather'' ''humidity'')
   \<and> is_number (field input_data ''weather'' ''sunlightHours'')
   \<and> is_string (subscript input_data ''cropType'')"

text \<open>
  The measurements of an input are finite: the nine fields hold numbers within the range of
  a float. The derived features compute with five of them (pH, nitrogen, phosphorus,
  potassium and temperature); all nine go into the array of features. The crop type is left
  open.
\<close>

fun is_float_sized :: "error + json \<Rightarrow> bool" where
  "is_float_sized (Inr (JNum x)) = in_float_range x"
| "is_float_sized _ = False"

definition finite_measurements :: "json \<Rightarrow> bool" where
  "finite_measurements input_data \<longleftrightarrow>
     is_float_sized (field input_data ''soil'' ''ph'')
   \<and> is_float_sized (field input_data ''soil'' ''nitrogen'')
   \<and> is_float_sized (field input_data ''soil'' ''phosphorus'')
   \<and> is_float_sized (field input_data ''soil'' ''potassium'')
   \<and> is_float_sized (field input_data ''soil'' ''organicMatter'')
   \<and> is_float_sized (field input_data ''weather'' ''temperature'')
   \<and> is_float_sized (field input_data ''weather'' ''rainfall'')
   \<and> is_float_sized (field input_data ''weather'' ''humidity'')
   \<and> is_float_sized (field input_data ''weather'' ''sunlightHours'')"

text \<open>The clamp of a value into an interval, as the risk scores are specified.\<close>

definition clamp :: "real \<Rightarrow> real \<Rightarrow> real \<Rightarrow> real" where
  "clamp lo hi x = (if x < lo then lo else if hi < x then hi else x)"

section \<open>Example inputs and model directories\<close>

text \<open>The example input of the module (\<open>sample_input\<close> under \<open>__main__\<close>).\<close>

definition sample_input :: json where
  "sample_input =
     JObj [(''soil'', JObj [(''ph'', JNum 6.5), (''nitrogen'', JNum 20), (''phosphorus'', JNum 15),
                            (''potassium'', JNum 25), (''organicMatter'', JNum 3.0)]),
           (''weather'', JObj [(''temperature'', JNum 25), (''rainfall'', JNum 100),
                               (''humidity'', JNum 65), (''sunlightHours'', JNum 8)]),
           (''cropType'', JStr ''rice'')]"

text \<open>The measurements of the example input for any crop.\<close>

definition sample_input_with_crop :: "json \<Rightarrow> json" where
  "sample_input_with_crop crop_type =
     JObj [(''soil'', JObj [(''ph'', JNum 6.5), (''nitrogen'', JNum 20), (''phosphorus'', JNum 15),
                            (''potassium'', JNum 25), (''organicMatter'', JNum 3.0)]),
           (''weather'', JObj [(''temperature'', JNum 25), (''rainfall'', JNum 100),
                               (''humidity'', JNum 65), (''sunlightHours'', JNum 8)]),
           (''cropType'', crop_type)]"

text \<open>The example input with a nitrogen reading, an \<open>int\<close>, beyond the range of a float.\<close>

definition huge_nitrogen_input :: json where
  "huge_nitrogen_input =
     JObj [(''soil'', JObj [(''ph'', JNum 6.5), (''nitrogen'', JNum (10 ^ 310)),
                            (''phosphorus'', JNum 15), (''potassium'', JNum 25),
                            (''organicMatter'', JNum 3.0)]),
           (''weather'', JObj [(''temperature'', JNum 25), (''rainfall'', JNum 100),
                               (''humidity'', JNum 65), (''sunlightHours'', JNum 8)]),
           (''cropType'', JStr ''rice'')]"

text \<open>Inputs that lack a key.\<close>

definition no_crop_input :: json where
  "no_crop_input =
     JObj [(''soil'', JObj [(''ph'', JNum 6.5), (''nitrogen'', JNum 20), (''phosphorus'', JNum 15),
                            (''potassium'', JNum 25), (''organicMatter'', JNum 3.0)]),
           (''weather'', JObj [(''temperature'', JNum 25), (''rainfall'', JNum 100),
                               (''humidity'', JNum 65), (''sunlightHours'', JNum 8)])]"

definition no_weather_input :: json where
  "no_weather_input =
     JObj [(''soil'', JObj [(''ph'', JNum 6.5), (''nitrogen'', JNum 20), (''phosphorus'', JNum 15),
                            (''potassium'', JNum 25), (''organicMatter'', JNum 3.0)]),
           (''cropType'', JStr ''rice'')]"

definition no_temperature_input :: json where
  "no_temperature_input =
     JObj [(''soil'', JObj [(''ph'', JNum 6.5), (''nitrogen'', JNum 20), (''phosphorus'', JNum 15),
                            (''potassium'', JNum 25), (''organicMatter'', JNum 3.0)]),
           (''weather'', JObj [(''rainfall'', JNum 100), (''humidity'', JNum 65),
                               (''sunlightHours'', JNum 8)]),
           (''cropType'', JStr ''rice'')]"

definition sample_draw :: feature_draw where
  "sample_draw = \<lparr>wind_speed_kmh = 15, pressure_hpa = 1013, planting_month = 6\<rparr>"

definition sample_randomness :: randomness where
  "sample_randomness =
     \<lparr>irrigation_draw = sample_draw, fertilizer_draw = sample_draw, yield_draw = sample_draw,
      tip_choice = 3\<rparr>"

text \<open>A models directory with no file at all.\<close>

definition empty_disk :: disk where
  "empty_disk = \<lparr>pickles = Map.empty, metadata_json = Map.empty\<rparr>"

text \<open>
  A models directory after training: the metadata, one scaler and the six regressors, each
  of which answers a constant. \<open>liters\<close> is the answer of the irrigation regressor.
\<close>

definition trained_disk :: "real \<Rightarrow> disk" where
  "trained_disk liters =
     \<lparr>pickles = map_of
        [(''models/scaler_irrigation.pkl'', Inr (Scaler (\<lambda>features. Inr features))),
         (''models/rf_irrigation_model.pkl'', Inr (Regressor (\<lambda>features. Inr (Fin liters)))),
         (''models/rf_nitrogen_fertilizer_model.pkl'', Inr (Regressor (\<lambda>features. Inr (Fin 120.4)))),
         (''models/rf_phosphorus_fertilizer_model.pkl'', Inr (Regressor (\<lambda>features. Inr (Fin 40.5)))),
         (''models/rf_potassium_fertilizer_model.pkl'', Inr (Regressor (\<lambda>features. Inr (Fin 61.5)))),
         (''models/rf_yield_model.pkl'', Inr (Regressor (\<lambda>features. Inr (Fin 4.23)))),
         (''models/rf_yield_increase_model.pkl'', Inr (Regressor (\<lambda>features. Inr (Fin 12.6))))],
      metadata_json = map_of [(''models/model_metadata.json'', Some default_crop_types)]\<rparr>"

text \<open>The predictor that \<open>__init__\<close> builds over \<open>trained_disk\<close> in the directory \<open>models\<close>.\<close>

definition sample_predictor :: predictor where
  "sample_predictor =
     \<lparr>models_dir = ''models'', fallback_mode = False, models = Map.empty,
      scalers = [''irrigation'' \<mapsto> Scaler (\<lambda>features. Inr features)],
      crop_types = default_crop_types\<rparr>"

section \<open>Sequencing and rounding\<close>

lemma and_then_Inl [simp]: "and_then (Inl e) f = Inl e"
  and and_then_Inr [simp]: "and_then (Inr x) f = f x"
  by (simp_all add: and_then_def)

lemma and_then_io_Inl [simp]: "and_then_io (Inl e, rd) f = (Inl e, rd)"
  and and_then_io_Inr [simp]: "and_then_io (Inr x, rd) f = f x rd"
  by (simp_all add: and_then_io_def)

lemma and_then_eq_Inr: "and_then m f = Inr r \<longleftrightarrow> (\<exists>x. m = Inr x \<and> f x = Inr r)"
  by (cases m) simp_all

lemma and_then_io_eq_Inr:
  "and_then_io m f = (Inr r, rd') \<longleftrightarrow> (\<exists>x. fst m = Inr x \<and> f x (snd m) = (Inr r, rd'))"
  by (cases m; cases "fst m") auto

lemma py_round_bounds:
  assumes "of_int a \<le> x" and "x \<le> of_int b"
  shows "a \<le> py_round x \<and> py_round x \<le> b"
proof -
  have f1: "a \<le> \<lfloor>x\<rfloor>" using assms(1) by (simp add: le_floor_iff)
  have f2: "\<lfloor>x\<rfloor> \<le> b" using assms(2) by (metis floor_mono floor_of_int)
  have f3: "\<lfloor>x\<rfloor> + 1 \<le> b" if "of_int \<lfloor>x\<rfloor> < x"
  proof -
    from that assms(2) have "of_int \<lfloor>x\<rfloor> < (of_int b :: real)" by linarith
    then show ?thesis by simp
  qed
  show ?thesis
    unfolding py_round_def Let_def using f1 f2 f3 by auto
qed

section \<open>What each predictor can return\<close>

lemma irrigation_record_Inr:
  assumes "irrigation_record y = Inr r"
  shows "\<exists>x. y = Fin x \<and> litersPerAcre r = max 100 (py_round x)"
  using assms by (cases y) (auto simp: irrigation_record_def split: if_splits)

lemma predict_irrigation_cases:
  "fst (predict_irrigation self dk rnd d rd) = irrigation_fallback
   \<or> (\<exists>y. irrigation_record y = Inr (fst (predict_irrigation self dk rnd d rd)))"
proof (cases "irrigation_liters self dk rnd d rd")
  case (Pair res rd1)
  show ?thesis
  proof (cases res)
    case (Inl e)
    with Pair show ?thesis by (simp add: predict_irrigation_def irrigation_try_def)
  next
    case (Inr y)
    with Pair show ?thesis
      by (cases "irrigation_record y") (auto simp: predict_irrigation_def irrigation_try_def)
  qed
qed

lemma irrigation_liters_floor: "100 \<le> litersPerAcre (fst (predict_irrigation self dk rnd d rd))"
  using predict_irrigation_cases [of self dk rnd d rd]
  by (auto simp: irrigation_fallback_def dest!: irrigation_record_Inr)

lemma fertilizer_amount_nonneg: "fertilizer_amount m fs = Inr a \<Longrightarrow> 0 \<le> a"
  by (auto simp: fertilizer_amount_def and_then_eq_Inr)

lemma fertilizer_try_nonneg:
  assumes "fertilizer_try self dk rnd d rd = (Inr r, rd')"
  shows "0 \<le> nitrogen r \<and> 0 \<le> phosphorus r \<and> 0 \<le> potassium r"
  using assms unfolding fertilizer_try_def
  by (auto simp: and_then_io_eq_Inr and_then_eq_Inr dest: fertilizer_amount_nonneg)

lemma predict_fertilizer_cases:
  "fst (predict_fertilizer self dk rnd d rd) = fertilizer_fallback
   \<or> (\<exists>rd'. fertilizer_try self dk rnd d rd = (Inr (fst (predict_fertilizer self dk rnd d rd)), rd'))"
  by (cases "fertilizer_try self dk rnd d rd"; cases "fst (fertilizer_try self dk rnd d rd)")
     (auto simp: predict_fertilizer_def)

lemma fertilizer_nonneg:
  "0 \<le> nitrogen (fst (predict_fertilizer self dk rnd d rd))
   \<and> 0 \<le> phosphorus (fst (predict_fertilizer self dk rnd d rd))
   \<and> 0 \<le> potassium (fst (predict_fertilizer self dk rnd d rd))"
  using predict_fertilizer_cases [of self dk rnd d rd]
  by (auto simp: fertilizer_fallback_def dest: fertilizer_try_nonneg)

lemma clamp_increase_finite:
  "\<exists>x. py_max 0 (py_min 50 y) = Fin x \<and> 0 \<le> x \<and> x \<le> 50"
  by (cases y) (auto simp: py_max_def py_min_def)

lemma yield_record_Inr:
  assumes "yield_record d y i = Inr r"
  shows "0 \<le> yieldIncrease r \<and> yieldIncrease r \<le> 50
         \<and> (\<exists>c. yield_confidence d = Inr c \<and> confidence r = min 98 c)"
proof -
  obtain x where x: "py_max 0 (py_min 50 i) = Fin x" "0 \<le> x" "x \<le> 50"
    using clamp_increase_finite by blast
  have "0 \<le> py_round x \<and> py_round x \<le> 50"
    using py_round_bounds [of 0 x 50] x by simp
  with assms x(1) show ?thesis
    by (auto simp: yield_record_def and_then_eq_Inr)
qed

lemma predict_yield_cases:
  "fst (predict_yield self dk rnd d rd) = yield_fallback
   \<or> (\<exists>y i. yield_record d y i = Inr (fst (predict_yield self dk rnd d rd)))"
proof (cases "yield_try self dk rnd d rd")
  case (Pair res rd1)
  show ?thesis
  proof (cases res)
    case (Inl e)
    with Pair show ?thesis by (simp add: predict_yield_def)
  next
    case (Inr r)
    with Pair have "predict_yield self dk rnd d rd = (r, rd1)"
      by (simp add: predict_yield_def)
    moreover from Pair Inr have "\<exists>y i. yield_record d y i = Inr r"
      unfolding yield_try_def by (auto simp: and_then_io_eq_Inr and_then_eq_Inr)
    ultimately show ?thesis by simp
  qed
qed

lemma yield_increase_range:
  "0 \<le> yieldIncrease (fst (predict_yield self dk rnd d rd))
   \<and> yieldIncrease (fst (predict_yield self dk rnd d rd)) \<le> 50"
  using predict_yield_cases [of self dk rnd d rd]
  by (auto simp: yield_fallback_def dest: yield_record_Inr)

section \<open>Well-formed inputs and the feature vector\<close>

lemma is_number_iff: "is_number v \<longleftrightarrow> (\<exists>x. v = Inr (JNum x))"
  by (cases v rule: is_number.cases) simp_all

lemma is_string_iff: "is_string v \<longleftrightarrow> (\<exists>s. v = Inr (JStr s))"
  by (cases v rule: is_string.cases) simp_all

lemma float_limit_large: "1000000 < float_limit"
  by (simp add: float_limit_def)

lemma small_in_float_range: "\<bar>x\<bar> \<le> 1000000 \<Longrightarrow> in_float_range x"
  using float_limit_large by (simp add: in_float_range_def)

lemma quotient_in_float_range:
  assumes "in_float_range x" and "1 \<le> c"
  shows "in_float_range (x / c)"
proof -
  have "\<bar>x / c\<bar> = \<bar>x\<bar> / c" using assms(2) by simp
  also have "\<dots> \<le> \<bar>x\<bar>" using assms(2) by (simp add: divide_le_eq mult_le_cancel_left1)
  finally show ?thesis using assms(1) by (simp add: in_float_range_def)
qed

lemma weather_stress_in_float_range:
  assumes "in_float_range t"
  shows "in_float_range (\<bar>t - 25\<bar> / 25)"
proof -
  have "\<bar>t - 25\<bar> / 25 \<le> (\<bar>t\<bar> + 25) / 25" by (simp add: divide_right_mono)
  also have "\<dots> = \<bar>t\<bar> / 25 + 1" by simp
  also have "\<dots> < float_limit"
    using assms float_limit_large by (simp add: in_float_range_def)
  finally show ?thesis by (simp add: in_float_range_def)
qed

lemma to_float_in_range: "in_float_range x \<Longrightarrow> to_float x = Inr x"
  by (simp add: to_float_def)

lemma to_float_eq_Inr: "to_float x = Inr y \<longleftrightarrow> in_float_range x \<and> y = x"
  by (auto simp add: to_float_def)

lemma prepare_features_numbers:
  assumes "field d ''soil'' ''ph'' = Inr (JNum ph)"
    and "field d ''soil'' ''nitrogen'' = Inr (JNum n)"
    and "field d ''soil'' ''phosphorus'' = Inr (JNum p)"
    and "field d ''soil'' ''potassium'' = Inr (JNum k)"
    and "field d ''soil'' ''organicMatter'' = Inr (JNum om)"
    and "field d ''weather'' ''temperature'' = Inr (JNum t)"
    and "field d ''weather'' ''rainfall'' = Inr (JNum rain)"
    and "field d ''weather'' ''humidity'' = Inr (JNum hum)"
    and "field d ''weather'' ''sunlightHours'' = Inr (JNum sun)"
    and "subscript d ''cropType'' = Inr c"
    and "in_float_range ph" and "in_float_range n" and "in_float_range p"
    and "in_float_range k" and "in_float_range t"
  shows "prepare_features self rnd d =
     Inr [JNum ph, JNum n, JNum p, JNum k, JNum om, JNum t, JNum rain, JNum hum, JNum sun,
          JNum (wind_speed_kmh rnd), JNum (pressure_hpa rnd), JNum 120,
          JNum (of_int (planting_month rnd)),
          JNum (of_nat (encode_crop (crop_types self) c)),
          JNum (\<bar>ph - 6.5\<bar> / 6.5), JNum ((n / 25 + p / 18 + k / 30) / 3),
          JNum (\<bar>t - 25\<bar> / 25)]"
proof -
  have "to_float ph = Inr ph" "to_float (n / 25) = Inr (n / 25)"
    "to_float (p / 18) = Inr (p / 18)" "to_float (k / 30) = Inr (k / 30)"
    "to_float (\<bar>t - 25\<bar> / 25) = Inr (\<bar>t - 25\<bar> / 25)"
    using assms(11-15)
    by (simp_all add: to_float_in_range quotient_in_float_range weather_stress_in_float_range)
  then show ?thesis
    unfolding prepare_features_def using assms(1-10) by simp
qed

text \<open>A nitrogen reading of \<open>10 ^ 310\<close> ends \<open>_prepare_features\<close> at line 123.\<close>

lemma float_limit_below: "float_limit < 2 ^ 1024"
  by (simp add: float_limit_def)

lemma huge_nitrogen_overflows:
  "prepare_features self rnd huge_nitrogen_input = Inl OverflowError"
proof -
  have "(2::real) ^ 1024 \<le> 10 ^ 310 / 25"
    by simp
  then have "\<not> in_float_range (10 ^ 310 / 25)"
    using float_limit_below by (simp add: in_float_range_def)
  moreover have "in_float_range (13 / 2)"
    by (rule small_in_float_range) simp
  ultimately show ?thesis
    by (simp add: prepare_features_def huge_nitrogen_input_def field_def to_float_def)
qed

lemma temperature_number:
  "and_then (field d ''weather'' ''temperature'') number = Inr t
   \<longleftrightarrow> field d ''weather'' ''temperature'' = Inr (JNum t)"
proof (cases "field d ''weather'' ''temperature''")
  case (Inl e)
  then show ?thesis by simp
next
  case (Inr v)
  then show ?thesis by (cases v) auto
qed

lemma wf_input_fields:
  assumes "wf_input d"
  obtains ph n p k om t rain hum sun s where
    "field d ''soil'' ''ph'' = Inr (JNum ph)"
    "field d ''soil'' ''nitrogen'' = Inr (JNum n)"
    "field d ''soil'' ''phosphorus'' = Inr (JNum p)"
    "field d ''soil'' ''potassium'' = Inr (JNum k)"
    "field d ''soil'' ''organicMatter'' = Inr (JNum om)"
    "field d ''weather'' ''temperature'' = Inr (JNum t)"
    "field d ''weather'' ''rainfall'' = Inr (JNum rain)"
    "field d ''weather'' ''humidity'' = Inr (JNum hum)"
    "field d ''weather'' ''sunlightHours'' = Inr (JNum sun)"
    "subscript d ''cropType'' = Inr (JStr s)"
  using assms unfolding wf_input_def is_number_iff is_string_iff by blast

lemma sample_input_fields:
  "field sample_input ''soil'' ''ph'' = Inr (JNum 6.5)"
  "field sample_input ''soil'' ''nitrogen'' = Inr (JNum 20)"
  "field sample_input ''soil'' ''phosphorus'' = Inr (JNum 15)"
  "field sample_input ''soil'' ''potassium'' = Inr (JNum 25)"
  "field sample_input ''soil'' ''organicMatter'' = Inr (JNum 3)"
  "field sample_input ''weather'' ''temperature'' = Inr (JNum 25)"
  "field sample_input ''weather'' ''rainfall'' = Inr (JNum 100)"
  "field sample_input ''weather'' ''humidity'' = Inr (JNum 65)"
  "field sample_input ''weather'' ''sunlightHours'' = Inr (JNum 8)"
  "subscript sample_input ''cropType'' = Inr (JStr ''rice'')"
  by (simp_all add: field_def sample_input_def)

lemma sample_input_with_crop_fields:
  "field (sample_input_with_crop c) ''soil'' ''ph'' = Inr (JNum 6.5)"
  "field (sample_input_with_crop c) ''soil'' ''nitrogen'' = Inr (JNum 20)"
  "field (sample_input_with_crop c) ''soil'' ''phosphorus'' = Inr (JNum 15)"
  "field (sample_input_with_crop c) ''soil'' ''potassium'' = Inr (JNum 25)"
  "field (sample_input_with_crop c) ''soil'' ''organicMatter'' = Inr (JNum 3)"
  "field (sample_input_with_crop c) ''weather'' ''temperature'' = Inr (JNum 25)"
  "field (sample_input_with_crop c) ''weather'' ''rainfall'' = Inr (JNum 100)"
  "field (sample_input_with_crop c) ''weather'' ''humidity'' = Inr (JNum 65)"
  "field (sample_input_with_crop c) ''weather'' ''sunlightHours'' = Inr (JNum 8)"
  "subscript (sample_input_with_crop c) ''cropType'' = Inr c"
  by (simp_all add: field_def sample_input_with_crop_def)

lemma sample_ranges:
  "in_float_range 6.5" "in_float_range 20" "in_float_range 15" "in_float_range 25"
  "in_float_range 25"
  by (rule small_in_float_range, simp)+

lemma sample_other_ranges:
  "in_float_range 3" "in_float_range 100" "in_float_range 65" "in_float_range 8"
  by (rule small_in_float_range, simp)+

lemma finite_measurements_fields:
  assumes "finite_measurements d"
  obtains ph n p k om t rain hum sun where
    "field d ''soil'' ''ph'' = Inr (JNum ph)"
    "field d ''soil'' ''nitrogen'' = Inr (JNum n)"
    "field d ''soil'' ''phosphorus'' = Inr (JNum p)"
    "field d ''soil'' ''potassium'' = Inr (JNum k)"
    "field d ''soil'' ''organicMatter'' = Inr (JNum om)"
    "field d ''weather'' ''temperature'' = Inr (JNum t)"
    "field d ''weather'' ''rainfall'' = Inr (JNum rain)"
    "field d ''weather'' ''humidity'' = Inr (JNum hum)"
    "field d ''weather'' ''sunlightHours'' = Inr (JNum sun)"
    "in_float_range ph" "in_float_range n" "in_float_range p" "in_float_range k"
    "in_float_range om" "in_float_range t" "in_float_range rain" "in_float_range hum"
    "in_float_range sun"
proof -
  have f: "is_float_sized v \<longleftrightarrow> (\<exists>x. v = Inr (JNum x) \<and> in_float_range x)" for v
    by (cases v rule: is_float_sized.cases) simp_all
  from assms show thesis
    unfolding finite_measurements_def f using that by blast
qed

lemma finite_sample_input_with_crop: "finite_measurements (sample_input_with_crop c)"
  by (simp add: finite_measurements_def sample_input_with_crop_fields
      sample_ranges [simplified] sample_other_ranges)

lemma wf_sample_input: "wf_input sample_input"
  by (simp add: wf_input_def sample_input_fields)

lemma wf_sample_input_with_crop: "wf_input (sample_input_with_crop (JStr s))"
  by (simp add: wf_input_def sample_input_with_crop_fields)

lemma default_crop_positions:
  "''dragonfruit'' \<notin> set default_crop_types"
  "''wheat'' \<in> set default_crop_types"
  "index default_crop_types ''wheat'' = 1"
  by (simp_all add: default_crop_types_def)

lemma new_predictor_empty_disk:
  "new_predictor empty_disk dir rd =
     (\<lparr>models_dir = dir, fallback_mode = True, models = Map.empty, scalers = Map.empty,
       crop_types = default_crop_types\<rparr>, rd)"
  by (simp add: new_predictor_def load_metadata_def empty_disk_def scaler_targets_def)

section \<open>Positions in the crop list\<close>

lemma index_less: "x \<in> set xs \<Longrightarrow> index xs x < length xs"
  by (induction xs) auto

lemma nth_index: "x \<in> set xs \<Longrightarrow> xs ! index xs x = x"
  by (induction xs) auto

lemma index_first: "j < index xs x \<Longrightarrow> xs ! j \<noteq> x"
proof (induction xs arbitrary: j)
  case Nil
  then show ?case by simp
next
  case (Cons y ys)
  then show ?case by (cases j) (auto split: if_splits)
qed

section \<open>Results do not depend on the files read before\<close>

lemma fst_and_then_io: "fst (and_then_io m f) = and_then (fst m) (\<lambda>x. fst (f x (snd m)))"
  by (cases "fst m") (simp_all add: and_then_io_def)

lemma fst_joblib_load:
  "fst (joblib_load dk path rd) =
     (case pickles dk path of None \<Rightarrow> Inl FileNotFoundError | Some c \<Rightarrow> c)"
  by (simp add: joblib_load_def)

lemma snd_joblib_load: "snd (joblib_load dk path rd) = rd @ [path]"
  by (simp add: joblib_load_def)

lemma irrigation_try_fst:
  "fst (irrigation_try self dk rnd d rd) = fst (irrigation_try self dk rnd d rd')"
  by (simp add: irrigation_try_def irrigation_liters_def fst_and_then_io fst_joblib_load)

lemma fertilizer_try_fst:
  "fst (fertilizer_try self dk rnd d rd) = fst (fertilizer_try self dk rnd d rd')"
  by (simp add: fertilizer_try_def fst_and_then_io fst_joblib_load)

lemma yield_try_fst:
  "fst (yield_try self dk rnd d rd) = fst (yield_try self dk rnd d rd')"
  by (simp add: yield_try_def fst_and_then_io fst_joblib_load)

lemma predict_irrigation_fst:
  "fst (predict_irrigation self dk rnd d rd) =
     (case fst (irrigation_try self dk rnd d rd) of Inr r \<Rightarrow> r | Inl e \<Rightarrow> irrigation_fallback)"
  by (cases "irrigation_try self dk rnd d rd"; cases "fst (irrigation_try self dk rnd d rd)")
     (simp_all add: predict_irrigation_def)

lemma predict_fertilizer_fst:
  "fst (predict_fertilizer self dk rnd d rd) =
     (case fst (fertilizer_try self dk rnd d rd) of Inr r \<Rightarrow> r | Inl e \<Rightarrow> fertilizer_fallback)"
  by (cases "fertilizer_try self dk rnd d rd"; cases "fst (fertilizer_try self dk rnd d rd)")
     (simp_all add: predict_fertilizer_def)

lemma predict_yield_fst:
  "fst (predict_yield self dk rnd d rd) =
     (case fst (yield_try self dk rnd d rd) of Inr r \<Rightarrow> r | Inl e \<Rightarrow> yield_fallback)"
  by (cases "yield_try self dk rnd d rd"; cases "fst (yield_try self dk rnd d rd)")
     (simp_all add: predict_yield_def)

lemma predict_irrigation_any_reads:
  "fst (predict_irrigation self dk rnd d rd) = fst (predict_irrigation self dk rnd d rd')"
  unfolding predict_irrigation_fst using irrigation_try_fst [of self dk rnd d rd rd'] by simp

lemma predict_fertilizer_any_reads:
  "fst (predict_fertilizer self dk rnd d rd) = fst (predict_fertilizer self dk rnd d rd')"
  unfolding predict_fertilizer_fst using fertilizer_try_fst [of self dk rnd d rd rd'] by simp

lemma predict_yield_any_reads:
  "fst (predict_yield self dk rnd d rd) = fst (predict_yield self dk rnd d rd')"
  unfolding predict_yield_fst using yield_try_fst [of self dk rnd d rd rd'] by simp

section \<open>The aggregate\<close>

lemma predict_all_fst:
  "fst (predict_all self dk rnd d rd) =
     and_then (subscript d ''cropType'') (\<lambda>c.
     and_then (and_then (field d ''weather'' ''temperature'') number) (\<lambda>t.
       Inr \<lparr>irrigation = fst (predict_irrigation self dk (irrigation_draw rnd) d rd),
            fertilizer = fst (predict_fertilizer self dk (fertilizer_draw rnd) d rd),
            yieldPrediction = fst (predict_yield self dk (yield_draw rnd) d rd),
            riskAssessment =
              assess_risk (fst (predict_irrigation self dk (irrigation_draw rnd) d rd))
                (fst (predict_fertilizer self dk (fertilizer_draw rnd) d rd))
                (fst (predict_yield self dk (yield_draw rnd) d rd)) t,
            sustainabilityTip =
              sustainability_tips ! (tip_choice rnd mod length sustainability_tips),
            economicImpact =
              estimate_economic_impact (fst (predict_irrigation self dk (irrigation_draw rnd) d rd))
                (fst (predict_fertilizer self dk (fertilizer_draw rnd) d rd))
                (fst (predict_yield self dk (yield_draw rnd) d rd))\<rparr>))"
proof (cases "subscript d ''cropType''")
  case (Inl e)
  then show ?thesis by (simp add: predict_all_def)
next
  case (Inr c)
  obtain irr rd1 where p1: "predict_irrigation self dk (irrigation_draw rnd) d rd = (irr, rd1)"
    by (cases "predict_irrigation self dk (irrigation_draw rnd) d rd")
  obtain fert rd2 where p2: "predict_fertilizer self dk (fertilizer_draw rnd) d rd1 = (fert, rd2)"
    by (cases "predict_fertilizer self dk (fertilizer_draw rnd) d rd1")
  obtain yp rd3 where p3: "predict_yield self dk (yield_draw rnd) d rd2 = (yp, rd3)"
    by (cases "predict_yield self dk (yield_draw rnd) d rd2")
  have f: "fst (predict_fertilizer self dk (fertilizer_draw rnd) d rd) = fert"
    using predict_fertilizer_any_reads [of self dk "fertilizer_draw rnd" d rd rd1] p2 by simp
  have y: "fst (predict_yield self dk (yield_draw rnd) d rd) = yp"
    using predict_yield_any_reads [of self dk "yield_draw rnd" d rd rd2] p3 by simp
  show ?thesis
    unfolding f y by (simp add: predict_all_def Inr p1 p2 p3)
qed

lemma predict_all_Inr:
  assumes "fst (predict_all self dk rnd d rd) = Inr res"
  obtains c t where
    "subscript d ''cropType'' = Inr c"
    "field d ''weather'' ''temperature'' = Inr (JNum t)"
    "irrigation res = fst (predict_irrigation self dk (irrigation_draw rnd) d rd)"
    "fertilizer res = fst (predict_fertilizer self dk (fertilizer_draw rnd) d rd)"
    "yieldPrediction res = fst (predict_yield self dk (yield_draw rnd) d rd)"
    "riskAssessment res =
       assess_risk (irrigation res) (fertilizer res) (yieldPrediction res) t"
    "sustainabilityTip res = sustainability_tips ! (tip_choice rnd mod length sustainability_tips)"
    "economicImpact res =
       estimate_economic_impact (irrigation res) (fertilizer res) (yieldPrediction res)"
proof -
  from assms obtain c t where c: "subscript d ''cropType'' = Inr c"
    and t: "and_then (field d ''weather'' ''temperature'') number = Inr t"
    and r: "res = \<lparr>irrigation = fst (predict_irrigation self dk (irrigation_draw rnd) d rd),
            fertilizer = fst (predict_fertilizer self dk (fertilizer_draw rnd) d rd),
            yieldPrediction = fst (predict_yield self dk (yield_draw rnd) d rd),
            riskAssessment =
              assess_risk (fst (predict_irrigation self dk (irrigation_draw rnd) d rd))
                (fst (predict_fertilizer self dk (fertilizer_draw rnd) d rd))
                (fst (predict_yield self dk (yield_draw rnd) d rd)) t,
            sustainabilityTip =
              sustainability_tips ! (tip_choice rnd mod length sustainability_tips),
            economicImpact =
              estimate_economic_impact (fst (predict_irrigation self dk (irrigation_draw rnd) d rd))
                (fst (predict_fertilizer self dk (fertilizer_draw rnd) d rd))
                (fst (predict_yield self dk (yield_draw rnd) d rd))\<rparr>"
    unfolding predict_all_fst and_then_eq_Inr by (metis sum.inject(2))
  from t have t': "field d ''weather'' ''temperature'' = Inr (JNum t)"
    by (simp add: temperature_number)
  show thesis
    by (rule that [OF c t']) (simp_all add: r)
qed

lemma clamp_min_max: "min 100 (max 0 x) = clamp 0 100 x"
  by (simp add: clamp_def min_def max_def)

lemma overall_risk_by_triggers:
  "overall_risk (risk_factors irr fert y) =
     (if 2000 < litersPerAcre irr \<and> 150 < nitrogen fert \<and> confidence y < 80 then ''High''
      else if 2000 < litersPerAcre irr \<or> 150 < nitrogen fert \<or> confidence y < 80 then ''Medium''
      else ''Low'')"
  by (simp add: overall_risk_def risk_factors_def)

lemma assess_risk_scores:
  "waterStress (assess_risk irr fert y t) = clamp 0 100 ((of_int (litersPerAcre irr) - 1000) / 20)"
  "nutrientDeficiency (assess_risk irr fert y t) =
     clamp 0 100 ((of_int (nitrogen fert + phosphorus fert + potassium fert) - 200) / 5)"
  "climateRisk (assess_risk irr fert y t) = clamp 0 100 (\<bar>t - 25\<bar> * 2)"
  "overallRisk (assess_risk irr fert y t) = overall_risk (risk_factors irr fert y)"
  unfolding assess_risk_def clamp_min_max by simp_all

section \<open>The predictors on the example input\<close>

lemma new_predictor_trained_disk:
  "new_predictor (trained_disk l) ''models'' rd =
     (sample_predictor, rd @ [''models/scaler_irrigation.pkl''])"
  by (simp add: new_predictor_def load_metadata_def trained_disk_def scaler_targets_def
      joblib_load_def sample_predictor_def)

lemma sample_predictor_fields:
  "models_dir sample_predictor = ''models''"
  "crop_types sample_predictor = default_crop_types"
  "scalers sample_predictor ''irrigation'' = Some (Scaler (\<lambda>features. Inr features))"
  "scalers sample_predictor ''nitrogen_fertilizer'' = None"
  "scalers sample_predictor ''yield'' = None"
  by (simp_all add: sample_predictor_def)

lemma sample_features:
  "prepare_features sample_predictor sample_draw sample_input =
     Inr [JNum 6.5, JNum 20, JNum 15, JNum 25, JNum 3, JNum 25, JNum 100, JNum 65, JNum 8,
          JNum 15, JNum 1013, JNum 120, JNum 6, JNum 0, JNum 0, JNum (37 / 45), JNum 0]"
  by (simp add: prepare_features_numbers [OF sample_input_fields sample_ranges] sample_draw_def
      sample_predictor_fields default_crop_types_def encode_crop_def)

lemma trained_irrigation_liters:
  "irrigation_liters sample_predictor (trained_disk l) sample_draw sample_input rd =
     (Inr (Fin l), rd @ [''models/rf_irrigation_model.pkl''])"
  by (simp add: irrigation_liters_def sample_features joblib_load_def trained_disk_def
      sample_predictor_fields)

lemma py_round_1500: "py_round 1500 = 1500" and py_round_1000: "py_round 1000 = 1000"
  and py_round_2500: "py_round 2500 = 2500"
  by (simp_all add: py_round_def)

lemma trained_predict_irrigation_1500:
  "predict_irrigation sample_predictor (trained_disk 1500) sample_draw sample_input rd =
     (\<lparr>litersPerAcre = 1500, frequency = ''Every 2-3 days'',
       irrigation_method = ''Drip Irrigation'', efficiency = 90,
       criticalPeriods = [''Flowering stage'', ''Early grain filling'']\<rparr>,
      rd @ [''models/rf_irrigation_model.pkl''])"
  by (simp add: predict_irrigation_def irrigation_try_def trained_irrigation_liters
      irrigation_record_def py_round_1500)

lemma trained_predict_irrigation_1000:
  "predict_irrigation sample_predictor (trained_disk 1000) sample_draw sample_input rd =
     (\<lparr>litersPerAcre = 1000, frequency = ''Weekly'',
       irrigation_method = ''Drip Irrigation'', efficiency = 90,
       criticalPeriods = [''Flowering stage'', ''Early grain filling'']\<rparr>,
      rd @ [''models/rf_irrigation_model.pkl''])"
  by (simp add: predict_irrigation_def irrigation_try_def trained_irrigation_liters
      irrigation_record_def py_round_1000)

lemma trained_predict_irrigation_2500:
  "predict_irrigation sample_predictor (trained_disk 2500) sample_draw sample_input rd =
     (\<lparr>litersPerAcre = 2500, frequency = ''Daily'',
       irrigation_method = ''Sprinkler System'', efficiency = 75,
       criticalPeriods = [''Flowering stage'', ''Early grain filling'']\<rparr>,
      rd @ [''models/rf_irrigation_model.pkl''])"
  by (simp add: predict_irrigation_def irrigation_try_def trained_irrigation_liters
      irrigation_record_def py_round_2500)

lemma py_round_fertilizer:
  "py_round (602 / 5) = 120" "py_round (81 / 2) = 40" "py_round (123 / 2) = 62"
  "py_round (63 / 5) = 13" "py_round (423 / 10) = 42"
  by (simp_all add: py_round_def)

lemma trained_predict_fertilizer:
  "predict_fertilizer sample_predictor (trained_disk l) sample_draw sample_input rd =
     (\<lparr>nitrogen = 120, phosphorus = 40, potassium = 62,
       applicationSchedule =
         [''25% at planting'', ''50% at vegetative stage'', ''25% at flowering''],
       fertilizer_efficiency = 85\<rparr>,
      rd @ [''models/rf_nitrogen_fertilizer_model.pkl'',
            ''models/rf_phosphorus_fertilizer_model.pkl'',
            ''models/rf_potassium_fertilizer_model.pkl''])"
  by (simp add: predict_fertilizer_def fertilizer_try_def sample_features joblib_load_def
      trained_disk_def sample_predictor_fields fertilizer_amount_def py_round_fertilizer)

lemma sample_yield_confidence: "yield_confidence sample_input = Inr 94"
  by (simp add: yield_confidence_def sample_input_fields to_float_in_range sample_ranges [simplified])

lemma sample_limiting_factors: "limiting_factors sample_input = Inr []"
  by (simp add: limiting_factors_def sample_input_fields)

lemma trained_yield_try:
  "yield_try sample_predictor (trained_disk l) sample_draw sample_input rd =
     (Inr \<lparr>expectedYield = Fin 4.2, yieldIncrease = 13,
           limitingFactors = [''No major limiting factors detected''], confidence = 94\<rparr>,
      rd @ [''models/rf_yield_model.pkl'', ''models/rf_yield_increase_model.pkl''])"
  by (simp add: yield_try_def sample_features joblib_load_def
      trained_disk_def sample_predictor_fields yield_record_def py_max_def py_min_def
      sample_yield_confidence sample_limiting_factors py_round_fertilizer)

lemma trained_predict_yield:
  "predict_yield sample_predictor (trained_disk l) sample_draw sample_input rd =
     (\<lparr>expectedYield = Fin 4.2, yieldIncrease = 13,
       limitingFactors = [''No major limiting factors detected''], confidence = 94\<rparr>,
      rd @ [''models/rf_yield_model.pkl'', ''models/rf_yield_increase_model.pkl''])"
  by (simp add: predict_yield_def trained_yield_try)

section \<open>Failures and populated fields\<close>

lemma irrigation_try_steps:
  "fst (irrigation_try self dk rnd d rd) =
     and_then (prepare_features self rnd d) (\<lambda>features.
     and_then (fst (joblib_load dk (models_dir self @ ''/rf_irrigation_model.pkl'') rd)) (\<lambda>model.
     and_then (transform (scalers self ''irrigation'') features) (\<lambda>features_scaled.
     and_then (predict model features_scaled) irrigation_record)))"
  by (cases "prepare_features self rnd d";
      cases "pickles dk (models_dir self @ ''/rf_irrigation_model.pkl'')")
     (auto simp add: irrigation_try_def irrigation_liters_def fst_and_then_io fst_joblib_load
      and_then_def split: sum.splits)

lemma irrigation_try_no_model:
  assumes "pickles dk (models_dir self @ ''/rf_irrigation_model.pkl'') = None"
  shows "\<exists>e. fst (irrigation_try self dk rnd d rd) = Inl e"
  unfolding irrigation_try_steps fst_joblib_load assms
  by (cases "prepare_features self rnd d") simp_all

lemma fertilizer_try_no_model:
  assumes "pickles dk (models_dir self @ ''/rf_nitrogen_fertilizer_model.pkl'') = None"
  shows "\<exists>e. fst (fertilizer_try self dk rnd d rd) = Inl e"
  by (cases "prepare_features self rnd d")
     (simp_all add: fertilizer_try_def fst_and_then_io fst_joblib_load assms)

lemma yield_try_no_model:
  assumes "pickles dk (models_dir self @ ''/rf_yield_model.pkl'') = None"
  shows "\<exists>e. fst (yield_try self dk rnd d rd) = Inl e"
  by (cases "prepare_features self rnd d")
     (simp_all add: yield_try_def fst_and_then_io fst_joblib_load assms)

lemma predictors_without_models:
  assumes "pickles dk = Map.empty"
  shows "fst (predict_irrigation self dk r1 d rd1) = irrigation_fallback"
    and "fst (predict_fertilizer self dk r2 d rd2) = fertilizer_fallback"
    and "fst (predict_yield self dk r3 d rd3) = yield_fallback"
proof -
  have "\<exists>e. fst (irrigation_try self dk r1 d rd1) = Inl e"
    by (rule irrigation_try_no_model) (simp add: assms)
  then show "fst (predict_irrigation self dk r1 d rd1) = irrigation_fallback"
    by (auto simp add: predict_irrigation_fst)
  have "\<exists>e. fst (fertilizer_try self dk r2 d rd2) = Inl e"
    by (rule fertilizer_try_no_model) (simp add: assms)
  then show "fst (predict_fertilizer self dk r2 d rd2) = fertilizer_fallback"
    by (auto simp add: predict_fertilizer_fst)
  have "\<exists>e. fst (yield_try self dk r3 d rd3) = Inl e"
    by (rule yield_try_no_model) (simp add: assms)
  then show "fst (predict_yield self dk r3 d rd3) = yield_fallback"
    by (auto simp add: predict_yield_fst)
qed

lemma irrigation_record_fields:
  assumes "irrigation_record y = Inr r"
  shows "criticalPeriods r = [''Flowering stage'', ''Early grain filling'']"
    and "efficiency r = (if irrigation_method r = ''Drip Irrigation'' then 90 else 75)"
    and "\<exists>x. y = Fin x
           \<and> (2000 < x \<longrightarrow> irrigation_method r = ''Sprinkler System'' \<and> frequency r = ''Daily'')
           \<and> (1000 < x \<and> x \<le> 2000 \<longrightarrow>
                irrigation_method r = ''Drip Irrigation'' \<and> frequency r = ''Every 2-3 days'')
           \<and> (x \<le> 1000 \<longrightarrow> irrigation_method r = ''Drip Irrigation'' \<and> frequency r = ''Weekly'')"
  using assms
  by (cases y; auto simp: irrigation_record_def split: if_splits)+

lemma irrigation_try_Inr:
  assumes "fst (irrigation_try self dk rnd d rd) = Inr r"
  shows "\<exists>y. fst (irrigation_liters self dk rnd d rd) = Inr y \<and> irrigation_record y = Inr r"
  using assms
  by (cases "irrigation_liters self dk rnd d rd"; cases "fst (irrigation_liters self dk rnd d rd)")
     (simp_all add: irrigation_try_def)

lemma critical_periods_nonempty: "criticalPeriods (fst (predict_irrigation self dk rnd d rd)) \<noteq> []"
  using predict_irrigation_cases [of self dk rnd d rd]
  by (auto simp: irrigation_fallback_def dest: irrigation_record_fields(1))

lemma application_schedule_nonempty:
  "applicationSchedule (fst (predict_fertilizer self dk rnd d rd)) \<noteq> []"
proof -
  have "applicationSchedule r \<noteq> []" if "fertilizer_try self dk rnd d rd = (Inr r, rd')" for r rd'
    using that unfolding fertilizer_try_def
    by (auto simp: and_then_io_eq_Inr and_then_eq_Inr)
  then show ?thesis
    using predict_fertilizer_cases [of self dk rnd d rd]
    by (auto simp: fertilizer_fallback_def)
qed

lemma yield_record_factors: "yield_record d y i = Inr r \<Longrightarrow> limitingFactors r \<noteq> []"
  by (auto simp: yield_record_def and_then_eq_Inr Let_def split: if_splits)

lemma limiting_factors_nonempty:
  "limitingFactors (fst (predict_yield self dk rnd d rd)) \<noteq> []"
  using predict_yield_cases [of self dk rnd d rd]
  by (auto simp: yield_fallback_def dest: yield_record_factors)

lemma tip_in_catalog:
  "sustainability_tips ! (n mod length sustainability_tips) \<in> set sustainability_tips"
  by (rule nth_mem) (simp add: sustainability_tips_def)

lemma overall_risk_values: "overall_risk fs \<in> {''Low'', ''Medium'', ''High''}"
  by (simp add: overall_risk_def)

lemma empty_disk_tries:
  "fst (irrigation_try (fst (new_predictor empty_disk ''models'' [])) empty_disk sample_draw
     sample_input []) = Inl FileNotFoundError"
  "fst (fertilizer_try (fst (new_predictor empty_disk ''models'' [])) empty_disk sample_draw
     sample_input []) = Inl FileNotFoundError"
  "fst (yield_try (fst (new_predictor empty_disk ''models'' [])) empty_disk sample_draw
     sample_input []) = Inl FileNotFoundError"
  by (simp_all add: irrigation_try_steps fertilizer_try_def yield_try_def fst_and_then_io
      fst_joblib_load prepare_features_numbers [OF sample_input_fields sample_ranges] empty_disk_def)

section \<open>The confidence of a yield prediction\<close>

lemma number_eq_Inr: "number v = Inr x \<longleftrightarrow> v = JNum x"
  by (cases v) auto

lemma yield_confidence_Inr:
  assumes "yield_confidence d = Inr c"
  shows "\<exists>ph om rain. field d ''soil'' ''ph'' = Inr (JNum ph)
     \<and> field d ''soil'' ''organicMatter'' = Inr (JNum om)
     \<and> field d ''weather'' ''rainfall'' = Inr (JNum rain)
     \<and> c = 85 + (if \<bar>ph - 6.5\<bar> < 0.5 then 5 else 0) + (if 3 < om then 3 else 0)
              + (if 50 \<le> rain \<and> rain \<le> 200 then 4 else 0)"
proof -
  from assms obtain ph om rain where "field d ''soil'' ''ph'' = Inr (JNum ph)"
    and "field d ''soil'' ''organicMatter'' = Inr (JNum om)"
    and "field d ''weather'' ''rainfall'' = Inr (JNum rain)"
    and "Inr c = (Inr (85 + (if \<bar>ph - 6.5\<bar> < 0.5 then 5 else 0) + (if 3 < om then 3 else 0)
              + (if 50 \<le> rain \<and> rain \<le> 200 then 4 else 0)) :: error + int)"
    unfolding yield_confidence_def and_then_eq_Inr number_eq_Inr to_float_eq_Inr by metis
  then show ?thesis by blast
qed

lemma yield_confidence_range: "yield_confidence d = Inr c \<Longrightarrow> 85 \<le> c \<and> c \<le> 97"
  by (drule yield_confidence_Inr) auto

lemma yield_try_Inr:
  assumes "fst (yield_try self dk rnd d rd) = Inr r"
  shows "\<exists>y i. yield_record d y i = Inr r"
  using assms unfolding yield_try_def
  by (auto simp: fst_and_then_io and_then_eq_Inr)

section \<open>Files read by the construction and by the calls\<close>

lemma predict_irrigation_reads:
  assumes "prepare_features self rnd d = Inr fs"
  shows "snd (predict_irrigation self dk rnd d rd) =
     rd @ [models_dir self @ ''/rf_irrigation_model.pkl'']"
proof -
  have "snd (irrigation_liters self dk rnd d rd) =
      rd @ [models_dir self @ ''/rf_irrigation_model.pkl'']"
    by (cases "pickles dk (models_dir self @ ''/rf_irrigation_model.pkl'')")
       (auto simp add: irrigation_liters_def assms joblib_load_def and_then_io_def
        split: sum.splits)
  then have "snd (irrigation_try self dk rnd d rd) =
      rd @ [models_dir self @ ''/rf_irrigation_model.pkl'']"
    by (cases "fst (irrigation_liters self dk rnd d rd)")
       (simp_all add: irrigation_try_def and_then_io_def)
  then show ?thesis
    by (cases "irrigation_try self dk rnd d rd"; cases "fst (irrigation_try self dk rnd d rd)")
       (simp_all add: predict_irrigation_def)
qed

lemma load_scalers_reads:
  "snd (load_scalers dk dir ts sc rd) =
     rd @ map (\<lambda>t. dir @ ''/scaler_'' @ t @ ''.pkl'')
            (filter (\<lambda>t. pickles dk (dir @ ''/scaler_'' @ t @ ''.pkl'') \<noteq> None) ts)"
proof (induction ts arbitrary: sc rd)
  case Nil
  then show ?case by simp
next
  case (Cons t ts)
  show ?case
  proof (cases "pickles dk (dir @ ''/scaler_'' @ t @ ''.pkl'')")
    case None
    then show ?thesis by (simp add: Cons.IH)
  next
    case (Some c)
    then show ?thesis
      by (cases c) (simp_all add: Cons.IH joblib_load_def)
  qed
qed

lemma count_list_distinct: "distinct xs \<Longrightarrow> count_list xs x = (if x \<in> set xs then 1 else 0)"
  by (induction xs) (auto simp: count_list_0_iff)

lemma count_list_notin: "x \<notin> set xs \<Longrightarrow> count_list xs x = 0"
  by (simp add: count_list_0_iff)

lemma scaler_paths_distinct:
  "distinct ts \<Longrightarrow> distinct (map (\<lambda>t. dir @ ''/scaler_'' @ t @ ''.pkl'') (filter P ts))"
  by (simp add: distinct_map inj_on_def)

lemma new_predictor_reads:
  "snd (new_predictor dk dir rd) =
     rd @ map (\<lambda>t. dir @ ''/scaler_'' @ t @ ''.pkl'')
            (filter (\<lambda>t. pickles dk (dir @ ''/scaler_'' @ t @ ''.pkl'') \<noteq> None) scaler_targets)"
  using load_scalers_reads [of dk dir scaler_targets Map.empty rd]
  by (simp add: new_predictor_def case_prod_beta)

lemma load_scalers_cache:
  "fst (load_scalers dk dir ts sc rd) t =
     (if t \<in> set ts
      then (case pickles dk (dir @ ''/scaler_'' @ t @ ''.pkl'') of
              Some (Inr a) \<Rightarrow> Some a | _ \<Rightarrow> sc t)
      else sc t)"
proof (induction ts arbitrary: sc rd)
  case Nil
  then show ?case by simp
next
  case (Cons u us)
  show ?case
  proof (cases "pickles dk (dir @ ''/scaler_'' @ u @ ''.pkl'')")
    case None
    then show ?thesis by (auto simp add: Cons.IH)
  next
    case (Some c)
    then show ?thesis
      by (cases c) (auto simp add: Cons.IH joblib_load_def split: option.splits sum.splits)
  qed
qed

lemma new_predictor_scalers:
  "scalers (fst (new_predictor dk dir rd)) t =
     (if t \<in> set scaler_targets
      then (case pickles dk (dir @ ''/scaler_'' @ t @ ''.pkl'') of
              Some (Inr a) \<Rightarrow> Some a | _ \<Rightarrow> None)
      else None)"
  using load_scalers_cache [of dk dir scaler_targets Map.empty rd t]
  by (simp add: new_predictor_def case_prod_beta)

lemma new_predictor_models_dir: "models_dir (fst (new_predictor dk dir rd)) = dir"
  by (simp add: new_predictor_def case_prod_beta)

lemma and_then_io_reads:
  assumes "\<exists>ms. snd m = rd @ ms \<and> set ms \<subseteq> S"
    and "\<And>x rd'. \<exists>ms. snd (f x rd') = rd' @ ms \<and> set ms \<subseteq> S"
  shows "\<exists>ms. snd (and_then_io m f) = rd @ ms \<and> set ms \<subseteq> S"
proof (cases "fst m")
  case (Inl e)
  with assms(1) show ?thesis by (simp add: and_then_io_def)
next
  case (Inr x)
  from assms(1) obtain ms where ms: "snd m = rd @ ms" "set ms \<subseteq> S" by blast
  from assms(2) obtain ms' where ms': "snd (f x (snd m)) = snd m @ ms'" "set ms' \<subseteq> S" by blast
  from Inr ms ms' have "snd (and_then_io m f) = rd @ (ms @ ms') \<and> set (ms @ ms') \<subseteq> S"
    by (simp add: and_then_io_def)
  then show ?thesis by blast
qed

lemma joblib_load_reads: "p \<in> S \<Longrightarrow> \<exists>ms. snd (joblib_load dk p rd) = rd @ ms \<and> set ms \<subseteq> S"
  by (simp add: joblib_load_def)

lemma pure_reads: "\<exists>ms. snd (v, rd) = rd @ ms \<and> set ms \<subseteq> S"
  by simp

lemma irrigation_try_reads:
  "\<exists>ms. snd (irrigation_try self dk rnd d rd) = rd @ ms \<and> set ms \<subseteq> model_paths self"
  unfolding irrigation_try_def irrigation_liters_def
  by (intro and_then_io_reads pure_reads joblib_load_reads) (simp add: model_paths_def)

lemma fertilizer_try_reads:
  "\<exists>ms. snd (fertilizer_try self dk rnd d rd) = rd @ ms \<and> set ms \<subseteq> model_paths self"
  unfolding fertilizer_try_def
  by (intro and_then_io_reads pure_reads joblib_load_reads) (simp_all add: model_paths_def)

lemma yield_try_reads:
  "\<exists>ms. snd (yield_try self dk rnd d rd) = rd @ ms \<and> set ms \<subseteq> model_paths self"
  unfolding yield_try_def
  by (intro and_then_io_reads pure_reads joblib_load_reads) (simp_all add: model_paths_def)

lemma predict_irrigation_snd:
  "snd (predict_irrigation self dk rnd d rd) = snd (irrigation_try self dk rnd d rd)"
  by (cases "irrigation_try self dk rnd d rd"; cases "fst (irrigation_try self dk rnd d rd)")
     (simp_all add: predict_irrigation_def)

lemma predict_fertilizer_snd:
  "snd (predict_fertilizer self dk rnd d rd) = snd (fertilizer_try self dk rnd d rd)"
  by (cases "fertilizer_try self dk rnd d rd"; cases "fst (fertilizer_try self dk rnd d rd)")
     (simp_all add: predict_fertilizer_def)

lemma predict_yield_snd:
  "snd (predict_yield self dk rnd d rd) = snd (yield_try self dk rnd d rd)"
  by (cases "yield_try self dk rnd d rd"; cases "fst (yield_try self dk rnd d rd)")
     (simp_all add: predict_yield_def)

lemma predict_all_reads:
  "\<exists>ms. snd (predict_all self dk rnd d rd) = rd @ ms \<and> set ms \<subseteq> model_paths self"
proof (cases "subscript d ''cropType''")
  case (Inl e)
  then show ?thesis by (simp add: predict_all_def)
next
  case (Inr c)
  obtain m1 where m1: "snd (predict_irrigation self dk (irrigation_draw rnd) d rd) = rd @ m1"
    "set m1 \<subseteq> model_paths self"
    using irrigation_try_reads unfolding predict_irrigation_snd by blast
  obtain m2 where m2: "snd (predict_fertilizer self dk (fertilizer_draw rnd) d (rd @ m1))
      = (rd @ m1) @ m2" "set m2 \<subseteq> model_paths self"
    using fertilizer_try_reads unfolding predict_fertilizer_snd by blast
  obtain m3 where m3: "snd (predict_yield self dk (yield_draw rnd) d ((rd @ m1) @ m2))
      = ((rd @ m1) @ m2) @ m3" "set m3 \<subseteq> model_paths self"
    using yield_try_reads unfolding predict_yield_snd by blast
  have "snd (predict_all self dk rnd d rd) = rd @ (m1 @ m2 @ m3)"
    using m1(1) m2(1) m3(1) by (simp add: predict_all_def Inr case_prod_beta)
  moreover have "set (m1 @ m2 @ m3) \<subseteq> model_paths self"
    using m1(2) m2(2) m3(2) by simp
  ultimately show ?thesis by blast
qed

lemma serve_requests_reads:
  "\<exists>ms. serve_requests self dk calls rd = rd @ ms \<and> set ms \<subseteq> model_paths self"
proof (induction calls arbitrary: rd)
  case Nil
  then show ?case by simp
next
  case (Cons call calls)
  obtain rnd d where call: "call = (rnd, d)" by (cases call)
  obtain m1 where m1: "snd (predict_all self dk rnd d rd) = rd @ m1" "set m1 \<subseteq> model_paths self"
    using predict_all_reads by blast
  obtain m2 where m2: "serve_requests self dk calls (rd @ m1) = (rd @ m1) @ m2"
    "set m2 \<subseteq> model_paths self"
    using Cons.IH by blast
  have "serve_requests self dk (call # calls) rd = rd @ (m1 @ m2) \<and> set (m1 @ m2) \<subseteq> model_paths self"
    using m1 m2 by (simp add: call)
  then show ?case by blast
qed

lemma scaler_path_no_model: "models_dir self @ ''/scaler_'' @ t @ ''.pkl'' \<notin> model_paths self"
  by (simp add: model_paths_def)

text \<open>
  The scaler files: in the lifetime of a process each is read once, at construction, when
  it is the scaler of one of the six targets and exists, and never otherwise. The scaler
  that was loaded is kept in \<open>self.scalers\<close> under its target, and what the calls of
  \<open>predict_all\<close> add to the files read at construction are model files.
\<close>

lemma scaler_files_read_once:
  "count_list (process_reads dk dir calls) (dir @ ''/scaler_'' @ t @ ''.pkl'')
     = (if t \<in> set scaler_targets \<and> pickles dk (dir @ ''/scaler_'' @ t @ ''.pkl'') \<noteq> None
        then 1 else 0)
   \<and> snd (new_predictor dk dir []) =
       map (\<lambda>t. dir @ ''/scaler_'' @ t @ ''.pkl'')
         (filter (\<lambda>t. pickles dk (dir @ ''/scaler_'' @ t @ ''.pkl'') \<noteq> None) scaler_targets)
   \<and> scalers (fst (new_predictor dk dir [])) t =
       (if t \<in> set scaler_targets
        then (case pickles dk (dir @ ''/scaler_'' @ t @ ''.pkl'') of
                Some (Inr a) \<Rightarrow> Some a | _ \<Rightarrow> None)
        else None)
   \<and> (\<exists>ms. process_reads dk dir calls = snd (new_predictor dk dir []) @ ms
          \<and> set ms \<subseteq> model_paths (fst (new_predictor dk dir [])))"
proof -
  let ?self = "fst (new_predictor dk dir [])"
  let ?rd0 = "snd (new_predictor dk dir [])"
  let ?p = "dir @ ''/scaler_'' @ t @ ''.pkl''"
  let ?ts = "filter (\<lambda>t. pickles dk (dir @ ''/scaler_'' @ t @ ''.pkl'') \<noteq> None) scaler_targets"
  have rd0: "?rd0 = map (\<lambda>t. dir @ ''/scaler_'' @ t @ ''.pkl'') ?ts"
    using new_predictor_reads [of dk dir "[]"] by simp
  have pr: "process_reads dk dir calls = serve_requests ?self dk calls ?rd0"
    by (simp add: process_reads_def case_prod_beta)
  obtain ms where ms: "process_reads dk dir calls = ?rd0 @ ms" "set ms \<subseteq> model_paths ?self"
    unfolding pr using serve_requests_reads by blast
  have "?p \<notin> set ms"
    using ms(2) scaler_path_no_model [of ?self t] by (auto simp: new_predictor_models_dir)
  then have c: "count_list (process_reads dk dir calls) ?p = count_list ?rd0 ?p"
    by (simp add: ms(1) count_list_notin)
  have d: "distinct ?rd0"
    unfolding rd0 by (rule scaler_paths_distinct) (simp add: scaler_targets_def)
  have "count_list ?rd0 ?p = (if ?p \<in> set ?rd0 then 1 else 0)"
    by (rule count_list_distinct [OF d])
  moreover have "?p \<in> set ?rd0 \<longleftrightarrow> t \<in> set scaler_targets \<and> pickles dk ?p \<noteq> None"
    unfolding rd0 by auto
  ultimately have "count_list (process_reads dk dir calls) ?p
     = (if t \<in> set scaler_targets \<and> pickles dk ?p \<noteq> None then 1 else 0)"
    using c by simp
  with rd0 ms new_predictor_scalers [of dk dir "[]" t] show ?thesis by blast
qed

lemma trained_predict_all_reads:
  "snd (predict_all sample_predictor (trained_disk 1500) sample_randomness sample_input rd) =
     rd @ [''models/rf_irrigation_model.pkl'', ''models/rf_nitrogen_fertilizer_model.pkl'',
           ''models/rf_phosphorus_fertilizer_model.pkl'',
           ''models/rf_potassium_fertilizer_model.pkl'', ''models/rf_yield_model.pkl'',
           ''models/rf_yield_increase_model.pkl'']"
  by (simp add: predict_all_def sample_input_fields sample_randomness_def
      trained_predict_irrigation_1500 trained_predict_fertilizer trained_predict_yield)

section \<open>Claim C1: the aggregate is complete\<close>

text \<open>
  Claim C1. For every well-formed input, whatever the models directory holds,
  \<open>predict_all\<close> returns a result with its six fields: the three predictions with their
  lists not empty, a risk assessment whose overall risk is Low, Medium or High, a tip of the
  catalog and the economic impact. When the directory holds no pickle file at all, the three
  predictions are the three fallback records.
\<close>

theorem predict_all_complete:
  assumes "wf_input d"
  shows "\<exists>res. fst (predict_all self dk rnd d rd) = Inr res
     \<and> criticalPeriods (irrigation res) \<noteq> []
     \<and> applicationSchedule (fertilizer res) \<noteq> []
     \<and> limitingFactors (yieldPrediction res) \<noteq> []
     \<and> overallRisk (riskAssessment res) \<in> {''Low'', ''Medium'', ''High''}
     \<and> sustainabilityTip res \<in> set sustainability_tips
     \<and> (pickles dk = Map.empty \<longrightarrow>
          irrigation res = irrigation_fallback \<and> fertilizer res = fertilizer_fallback
          \<and> yieldPrediction res = yield_fallback)"
proof -
  from assms obtain t s where "field d ''weather'' ''temperature'' = Inr (JNum t)"
    and "subscript d ''cropType'' = Inr (JStr s)"
    by (rule wf_input_fields)
  then obtain res where res: "fst (predict_all self dk rnd d rd) = Inr res"
    by (simp add: predict_all_fst)
  then obtain t' where i: "irrigation res = fst (predict_irrigation self dk (irrigation_draw rnd) d rd)"
    and f: "fertilizer res = fst (predict_fertilizer self dk (fertilizer_draw rnd) d rd)"
    and y: "yieldPrediction res = fst (predict_yield self dk (yield_draw rnd) d rd)"
    and r: "riskAssessment res =
       assess_risk (irrigation res) (fertilizer res) (yieldPrediction res) t'"
    and tip: "sustainabilityTip res =
       sustainability_tips ! (tip_choice rnd mod length sustainability_tips)"
    by (rule predict_all_Inr)
  have 1: "criticalPeriods (irrigation res) \<noteq> []"
    unfolding i by (rule critical_periods_nonempty)
  have 2: "applicationSchedule (fertilizer res) \<noteq> []"
    unfolding f by (rule application_schedule_nonempty)
  have 3: "limitingFactors (yieldPrediction res) \<noteq> []"
    unfolding y by (rule limiting_factors_nonempty)
  have 4: "overallRisk (riskAssessment res) \<in> {''Low'', ''Medium'', ''High''}"
    unfolding r assess_risk_scores by (rule overall_risk_values)
  have 5: "sustainabilityTip res \<in> set sustainability_tips"
    unfolding tip by (rule tip_in_catalog)
  have 6: "pickles dk = Map.empty \<longrightarrow>
          irrigation res = irrigation_fallback \<and> fertilizer res = fertilizer_fallback
          \<and> yieldPrediction res = yield_fallback"
    unfolding i f y by (simp add: predictors_without_models)
  from res 1 2 3 4 5 6 show ?thesis by blast
qed

text \<open>The example input over an empty models directory.\<close>

theorem predict_all_complete_witness:
  "wf_input sample_input \<and> pickles empty_disk = Map.empty
   \<and> (\<exists>res. fst (predict_all (fst (new_predictor empty_disk ''models'' [])) empty_disk
                 sample_randomness sample_input []) = Inr res
          \<and> irrigation res = irrigation_fallback \<and> fertilizer res = fertilizer_fallback
          \<and> yieldPrediction res = yield_fallback
          \<and> sustainabilityTip res \<in> set sustainability_tips)"
  using predict_all_complete [OF wf_sample_input,
      of "fst (new_predictor empty_disk ''models'' [])" empty_disk sample_randomness "[]"]
  by (auto simp add: wf_sample_input empty_disk_def)

section \<open>Claim C2: the feature vector\<close>

text \<open>
  Claim C2. For an input whose nine measurements are numbers within the range of a float
  and whose crop type is present, \<open>_prepare_features\<close> returns 17 components, as many as
  the training columns,
  and paired with the training columns in their order they are: the nine measurements, the
  two simulated weather values, the growing days 120, the simulated planting month, the
  crop code, then \<open>ph_stress = |pH - 6.5| / 6.5\<close>,
  \<open>nutrient_balance = (N / 25 + P / 18 + K / 30) / 3\<close> and
  \<open>weather_stress = |T - 25| / 25\<close>.
\<close>

theorem feature_vector_canonical:
  assumes "field d ''soil'' ''ph'' = Inr (JNum ph)"
    and "field d ''soil'' ''nitrogen'' = Inr (JNum n)"
    and "field d ''soil'' ''phosphorus'' = Inr (JNum p)"
    and "field d ''soil'' ''potassium'' = Inr (JNum k)"
    and "field d ''soil'' ''organicMatter'' = Inr (JNum om)"
    and "field d ''weather'' ''temperature'' = Inr (JNum t)"
    and "field d ''weather'' ''rainfall'' = Inr (JNum rain)"
    and "field d ''weather'' ''humidity'' = Inr (JNum hum)"
    and "field d ''weather'' ''sunlightHours'' = Inr (JNum sun)"
    and "subscript d ''cropType'' = Inr c"
    and "in_float_range ph" and "in_float_range n" and "in_float_range p"
    and "in_float_range k" and "in_float_range t"
    and "in_float_range om" and "in_float_range rain" and "in_float_range hum"
    and "in_float_range sun"
  shows "\<exists>fs. prepare_features self rnd d = Inr fs
     \<and> length fs = 17 \<and> length feature_columns = 17
     \<and> zip feature_columns fs =
         [(''soil_ph'', JNum ph), (''nitrogen_ppm'', JNum n), (''phosphorus_ppm'', JNum p),
          (''potassium_ppm'', JNum k), (''organic_matter_pct'', JNum om),
          (''temperature_c'', JNum t), (''rainfall_mm'', JNum rain), (''humidity_pct'', JNum hum),
          (''sunlight_hours'', JNum sun), (''wind_speed_kmh'', JNum (wind_speed_kmh rnd)),
          (''pressure_hpa'', JNum (pressure_hpa rnd)), (''growing_days'', JNum 120),
          (''planting_month'', JNum (of_int (planting_month rnd))),
          (''crop_type_encoded'', JNum (of_nat (encode_crop (crop_types self) c))),
          (''ph_stress'', JNum (\<bar>ph - 6.5\<bar> / 6.5)),
          (''nutrient_balance'', JNum ((n / 25 + p / 18 + k / 30) / 3)),
          (''weather_stress'', JNum (\<bar>t - 25\<bar> / 25))]"
  by (simp add: prepare_features_numbers [OF assms(1-15)] feature_columns_def)

text \<open>The example input of the module under the default crop list.\<close>

theorem feature_vector_canonical_witness:
  "\<exists>fs. prepare_features (fst (new_predictor empty_disk ''models'' [])) sample_draw sample_input
          = Inr fs
     \<and> length fs = 17
     \<and> zip feature_columns fs =
         [(''soil_ph'', JNum 6.5), (''nitrogen_ppm'', JNum 20), (''phosphorus_ppm'', JNum 15),
          (''potassium_ppm'', JNum 25), (''organic_matter_pct'', JNum 3),
          (''temperature_c'', JNum 25), (''rainfall_mm'', JNum 100), (''humidity_pct'', JNum 65),
          (''sunlight_hours'', JNum 8), (''wind_speed_kmh'', JNum 15),
          (''pressure_hpa'', JNum 1013), (''growing_days'', JNum 120),
          (''planting_month'', JNum 6), (''crop_type_encoded'', JNum 0),
          (''ph_stress'', JNum 0), (''nutrient_balance'', JNum (37 / 45)),
          (''weather_stress'', JNum 0)]"
  using feature_vector_canonical [OF sample_input_fields sample_ranges sample_other_ranges,
      of "fst (new_predictor empty_disk ''models'' [])" sample_draw]
  by (auto simp add: new_predictor_empty_disk default_crop_types_def encode_crop_def sample_draw_def)

section \<open>Claim C3: fallback records\<close>

text \<open>
  Claim C3. Whatever exception ends the \<open>try\<close> block of a predictor, the predictor returns
  its own fallback record: for irrigation 1000 liters per acre, Drip Irrigation, every 2-3
  days, efficiency 85. When the block of \<open>predict_irrigation\<close> raises and \<open>predict_all\<close>
  returns, the fertilizer and the yield in its result are what their own predictors return.
\<close>

theorem predictor_fallback_on_exception:
  "(fst (irrigation_try self dk r1 d rd1) = Inl e1 \<longrightarrow>
      fst (predict_irrigation self dk r1 d rd1) =
        \<lparr>litersPerAcre = 1000, frequency = ''Every 2-3 days'',
         irrigation_method = ''Drip Irrigation'', efficiency = 85,
         criticalPeriods = [''Flowering stage'']\<rparr>)
   \<and> (fst (fertilizer_try self dk r2 d rd2) = Inl e2 \<longrightarrow>
      fst (predict_fertilizer self dk r2 d rd2) =
        \<lparr>nitrogen = 100, phosphorus = 50, potassium = 60,
         applicationSchedule = [''Split application recommended''],
         fertilizer_efficiency = 80\<rparr>)
   \<and> (fst (yield_try self dk r3 d rd3) = Inl e3 \<longrightarrow>
      fst (predict_yield self dk r3 d rd3) =
        \<lparr>expectedYield = Fin 3.5, yieldIncrease = 15,
         limitingFactors = [''Model prediction unavailable''], confidence = 70\<rparr>)
   \<and> (fst (irrigation_try self dk (irrigation_draw rnd) d rd) = Inl e1
        \<and> fst (predict_all self dk rnd d rd) = Inr res \<longrightarrow>
      irrigation res = irrigation_fallback
      \<and> fertilizer res = fst (predict_fertilizer self dk (fertilizer_draw rnd) d rd)
      \<and> yieldPrediction res = fst (predict_yield self dk (yield_draw rnd) d rd))"
proof -
  have 4: "irrigation res = irrigation_fallback
      \<and> fertilizer res = fst (predict_fertilizer self dk (fertilizer_draw rnd) d rd)
      \<and> yieldPrediction res = fst (predict_yield self dk (yield_draw rnd) d rd)"
    if e: "fst (irrigation_try self dk (irrigation_draw rnd) d rd) = Inl e1"
      and r: "fst (predict_all self dk rnd d rd) = Inr res"
  proof -
    from r obtain t where
      "irrigation res = fst (predict_irrigation self dk (irrigation_draw rnd) d rd)"
      "fertilizer res = fst (predict_fertilizer self dk (fertilizer_draw rnd) d rd)"
      "yieldPrediction res = fst (predict_yield self dk (yield_draw rnd) d rd)"
      by (rule predict_all_Inr)
    with e show ?thesis by (simp add: predict_irrigation_fst)
  qed
  show ?thesis
    using 4
    by (simp add: predict_irrigation_fst predict_fertilizer_fst predict_yield_fst
        irrigation_fallback_def fertilizer_fallback_def yield_fallback_def)
qed

text \<open>
  Over an empty models directory each block raises FileNotFoundError, and \<open>predict_all\<close>
  returns the three fallback records.
\<close>

theorem predictor_fallback_on_exception_witness:
  "fst (irrigation_try (fst (new_predictor empty_disk ''models'' [])) empty_disk sample_draw
     sample_input []) = Inl FileNotFoundError
   \<and> fst (predict_irrigation (fst (new_predictor empty_disk ''models'' [])) empty_disk sample_draw
       sample_input []) =
        \<lparr>litersPerAcre = 1000, frequency = ''Every 2-3 days'',
         irrigation_method = ''Drip Irrigation'', efficiency = 85,
         criticalPeriods = [''Flowering stage'']\<rparr>
   \<and> fst (fertilizer_try (fst (new_predictor empty_disk ''models'' [])) empty_disk sample_draw
       sample_input []) = Inl FileNotFoundError
   \<and> fst (predict_fertilizer (fst (new_predictor empty_disk ''models'' [])) empty_disk sample_draw
       sample_input []) =
        \<lparr>nitrogen = 100, phosphorus = 50, potassium = 60,
         applicationSchedule = [''Split application recommended''],
         fertilizer_efficiency = 80\<rparr>
   \<and> fst (yield_try (fst (new_predictor empty_disk ''models'' [])) empty_disk sample_draw
       sample_input []) = Inl FileNotFoundError
   \<and> fst (predict_yield (fst (new_predictor empty_disk ''models'' [])) empty_disk sample_draw
       sample_input []) =
        \<lparr>expectedYield = Fin 3.5, yieldIncrease = 15,
         limitingFactors = [''Model prediction unavailable''], confidence = 70\<rparr>
   \<and> (\<exists>res. fst (predict_all (fst (new_predictor empty_disk ''models'' [])) empty_disk
                 sample_randomness sample_input []) = Inr res
          \<and> irrigation res = irrigation_fallback
          \<and> fertilizer res = fst (predict_fertilizer (fst (new_predictor empty_disk ''models'' []))
                                    empty_disk sample_draw sample_input [])
          \<and> yieldPrediction res = fst (predict_yield (fst (new_predictor empty_disk ''models'' []))
                                    empty_disk sample_draw sample_input []))"
proof -
  let ?self = "fst (new_predictor empty_disk ''models'' [])"
  obtain res where
    res: "fst (predict_all ?self empty_disk sample_randomness sample_input []) = Inr res"
    by (simp add: predict_all_fst sample_input_fields)
  have d: "irrigation_draw sample_randomness = sample_draw"
    "fertilizer_draw sample_randomness = sample_draw"
    "yield_draw sample_randomness = sample_draw"
    by (simp_all add: sample_randomness_def)
  from predictor_fallback_on_exception [where self = ?self and dk = empty_disk
      and d = sample_input and ?r1.0 = sample_draw and ?rd1.0 = "[]"
      and ?e1.0 = FileNotFoundError and ?r2.0 = sample_draw and ?rd2.0 = "[]"
      and ?e2.0 = FileNotFoundError and ?r3.0 = sample_draw and ?rd3.0 = "[]"
      and ?e3.0 = FileNotFoundError and rnd = sample_randomness and rd = "[]" and res = res]
    res
  show ?thesis
    by (simp add: empty_disk_tries d)
qed

section \<open>Claim C4: files read in the lifetime of a process\<close>

text \<open>
  Claim C4. Each model or scaler file is read at most once in the lifetime of a process and
  kept for the later calls. The code keeps the scalers (\<open>scaler_files_read_once\<close>) but not
  the models: \<open>self.models\<close> is created empty and never filled, and each predictor loads its
  model files on every call. Over a trained models directory, a process that serves the
  example input twice reads the file of the irrigation model, and every other model file,
  twice.
\<close>

theorem model_file_read_on_every_call:
  "models (fst (new_predictor (trained_disk 1500) ''models'' [])) = Map.empty
   \<and> process_reads (trained_disk 1500) ''models''
       [(sample_randomness, sample_input), (sample_randomness, sample_input)] =
     [''models/scaler_irrigation.pkl'',
      ''models/rf_irrigation_model.pkl'', ''models/rf_nitrogen_fertilizer_model.pkl'',
      ''models/rf_phosphorus_fertilizer_model.pkl'',
      ''models/rf_potassium_fertilizer_model.pkl'', ''models/rf_yield_model.pkl'',
      ''models/rf_yield_increase_model.pkl'',
      ''models/rf_irrigation_model.pkl'', ''models/rf_nitrogen_fertilizer_model.pkl'',
      ''models/rf_phosphorus_fertilizer_model.pkl'',
      ''models/rf_potassium_fertilizer_model.pkl'', ''models/rf_yield_model.pkl'',
      ''models/rf_yield_increase_model.pkl'']
   \<and> count_list
       (process_reads (trained_disk 1500) ''models''
          [(sample_randomness, sample_input), (sample_randomness, sample_input)])
       ''models/rf_irrigation_model.pkl'' = 2"
proof -
  have "models (fst (new_predictor (trained_disk 1500) ''models'' [])) = Map.empty"
    by (simp add: new_predictor_def case_prod_beta)
  then show ?thesis
    by (simp add: process_reads_def new_predictor_trained_disk trained_predict_all_reads)
qed

section \<open>Claim C5: irrigation bands\<close>

text \<open>
  Claim C5, amended. On the path of \<open>predict_irrigation\<close> that does not fall back, the raw
  prediction is a finite number of liters, and: above 2000 the method is Sprinkler System
  and the frequency Daily; above 1000 and up to 2000 the method is Drip Irrigation and the
  frequency Every 2-3 days; up to 1000, 1000 included, the method is Drip Irrigation and the
  frequency Weekly. The efficiency is 90 when the method is Drip Irrigation and 75
  otherwise.
\<close>

theorem irrigation_bands:
  assumes "fst (irrigation_try self dk rnd d rd) = Inr r"
  shows "fst (predict_irrigation self dk rnd d rd) = r
     \<and> (\<exists>x. fst (irrigation_liters self dk rnd d rd) = Inr (Fin x)
           \<and> (2000 < x \<longrightarrow> irrigation_method r = ''Sprinkler System'' \<and> frequency r = ''Daily'')
           \<and> (1000 < x \<and> x \<le> 2000 \<longrightarrow>
                irrigation_method r = ''Drip Irrigation'' \<and> frequency r = ''Every 2-3 days'')
           \<and> (x \<le> 1000 \<longrightarrow> irrigation_method r = ''Drip Irrigation'' \<and> frequency r = ''Weekly''))
     \<and> efficiency r = (if irrigation_method r = ''Drip Irrigation'' then 90 else 75)"
proof -
  from assms obtain y where y: "fst (irrigation_liters self dk rnd d rd) = Inr y"
    and r: "irrigation_record y = Inr r"
    using irrigation_try_Inr by blast
  from assms have "fst (predict_irrigation self dk rnd d rd) = r"
    by (simp add: predict_irrigation_fst)
  with y irrigation_record_fields(2,3) [OF r] show ?thesis by auto
qed

text \<open>Regressors that answer 2500, 1500 and 1000 liters: the three bands.\<close>

theorem irrigation_bands_witness:
  "fst (irrigation_liters sample_predictor (trained_disk 2500) sample_draw sample_input []) =
     Inr (Fin 2500)
   \<and> fst (predict_irrigation sample_predictor (trained_disk 2500) sample_draw sample_input []) =
     \<lparr>litersPerAcre = 2500, frequency = ''Daily'',
      irrigation_method = ''Sprinkler System'', efficiency = 75,
      criticalPeriods = [''Flowering stage'', ''Early grain filling'']\<rparr>
   \<and> fst (irrigation_liters sample_predictor (trained_disk 1500) sample_draw sample_input []) =
     Inr (Fin 1500)
   \<and> fst (predict_irrigation sample_predictor (trained_disk 1500) sample_draw sample_input []) =
     \<lparr>litersPerAcre = 1500, frequency = ''Every 2-3 days'',
      irrigation_method = ''Drip Irrigation'', efficiency = 90,
      criticalPeriods = [''Flowering stage'', ''Early grain filling'']\<rparr>
   \<and> fst (irrigation_liters sample_predictor (trained_disk 1000) sample_draw sample_input []) =
     Inr (Fin 1000)
   \<and> fst (predict_irrigation sample_predictor (trained_disk 1000) sample_draw sample_input []) =
     \<lparr>litersPerAcre = 1000, frequency = ''Weekly'',
      irrigation_method = ''Drip Irrigation'', efficiency = 90,
      criticalPeriods = [''Flowering stage'', ''Early grain filling'']\<rparr>"
proof -
  have a: "fst (irrigation_try sample_predictor (trained_disk 2500) sample_draw sample_input []) =
     Inr \<lparr>litersPerAcre = 2500, frequency = ''Daily'',
          irrigation_method = ''Sprinkler System'', efficiency = 75,
          criticalPeriods = [''Flowering stage'', ''Early grain filling'']\<rparr>"
    by (simp add: irrigation_try_def trained_irrigation_liters irrigation_record_def py_round_2500)
  have b: "fst (irrigation_try sample_predictor (trained_disk 1500) sample_draw sample_input []) =
     Inr \<lparr>litersPerAcre = 1500, frequency = ''Every 2-3 days'',
          irrigation_method = ''Drip Irrigation'', efficiency = 90,
          criticalPeriods = [''Flowering stage'', ''Early grain filling'']\<rparr>"
    by (simp add: irrigation_try_def trained_irrigation_liters irrigation_record_def py_round_1500)
  have c: "fst (irrigation_try sample_predictor (trained_disk 1000) sample_draw sample_input []) =
     Inr \<lparr>litersPerAcre = 1000, frequency = ''Weekly'',
          irrigation_method = ''Drip Irrigation'', efficiency = 90,
          criticalPeriods = [''Flowering stage'', ''Early grain filling'']\<rparr>"
    by (simp add: irrigation_try_def trained_irrigation_liters irrigation_record_def py_round_1000)
  from irrigation_bands [OF a] irrigation_bands [OF b] irrigation_bands [OF c] show ?thesis
    by (simp add: trained_irrigation_liters)
qed

text \<open>
  Claim C5 as stated puts 1000 liters in the band from 1000 to 2000. A regressor that
  answers 1000 liters gives the frequency Weekly, not Every 2-3 days.
\<close>

theorem irrigation_band_boundary_counterexample:
  "fst (irrigation_liters sample_predictor (trained_disk 1000) sample_draw sample_input []) =
     Inr (Fin 1000)
   \<and> fst (irrigation_try sample_predictor (trained_disk 1000) sample_draw sample_input []) =
     Inr \<lparr>litersPerAcre = 1000, frequency = ''Weekly'',
          irrigation_method = ''Drip Irrigation'', efficiency = 90,
          criticalPeriods = [''Flowering stage'', ''Early grain filling'']\<rparr>
   \<and> frequency (fst (predict_irrigation sample_predictor (trained_disk 1000) sample_draw
        sample_input [])) \<noteq> ''Every 2-3 days''"
  by (simp add: irrigation_try_def trained_irrigation_liters irrigation_record_def py_round_1000
      trained_predict_irrigation_1000)

section \<open>Claim C6: ranges of the numeric outputs\<close>

text \<open>
  Claim C6. Whatever the predictor, the models directory, the random draws and the input
  are, and on the model path as on the fallback path: the liters per acre of
  \<open>predict_irrigation\<close> are an integer of at least 100, the nitrogen, phosphorus and
  potassium of \<open>predict_fertilizer\<close> are integers of at least 0, and the yield increase of
  \<open>predict_yield\<close> is an integer between 0 and 50.
\<close>

theorem numeric_outputs_in_range:
  "100 \<le> litersPerAcre (fst (predict_irrigation self dk r1 d rd1))
   \<and> 0 \<le> nitrogen (fst (predict_fertilizer self dk r2 d rd2))
   \<and> 0 \<le> phosphorus (fst (predict_fertilizer self dk r2 d rd2))
   \<and> 0 \<le> potassium (fst (predict_fertilizer self dk r2 d rd2))
   \<and> 0 \<le> yieldIncrease (fst (predict_yield self dk r3 d rd3))
   \<and> yieldIncrease (fst (predict_yield self dk r3 d rd3)) \<le> 50"
  using irrigation_liters_floor [of self dk r1 d rd1]
    fertilizer_nonneg [of self dk r2 d rd2]
    yield_increase_range [of self dk r3 d rd3]
  by simp

section \<open>Claim C7: yield confidence\<close>

text \<open>
  Claim C7. The confidence of \<open>predict_yield\<close> is between 70 and 98 for every input. When
  the \<open>try\<close> block returns, the pH, the organic matter and the rainfall of the input are
  numbers and the confidence is the minimum of 98 and 85, plus 5 if \<open>|pH - 6.5| < 0.5\<close>,
  plus 3 if the organic matter is above 3, plus 4 if the rainfall is between 50 and 200.
  When the block raises, the confidence is 70.
\<close>

theorem yield_confidence_bounds:
  "70 \<le> confidence (fst (predict_yield self dk rnd d rd))
   \<and> confidence (fst (predict_yield self dk rnd d rd)) \<le> 98
   \<and> (\<forall>r. fst (yield_try self dk rnd d rd) = Inr r \<longrightarrow>
        (\<exists>ph om rain. field d ''soil'' ''ph'' = Inr (JNum ph)
           \<and> field d ''soil'' ''organicMatter'' = Inr (JNum om)
           \<and> field d ''weather'' ''rainfall'' = Inr (JNum rain)
           \<and> confidence (fst (predict_yield self dk rnd d rd)) =
               min 98 (85 + (if \<bar>ph - 6.5\<bar> < 0.5 then 5 else 0) + (if 3 < om then 3 else 0)
                          + (if 50 \<le> rain \<and> rain \<le> 200 then 4 else 0))))
   \<and> (\<forall>e. fst (yield_try self dk rnd d rd) = Inl e \<longrightarrow>
        confidence (fst (predict_yield self dk rnd d rd)) = 70)"
proof (cases "fst (yield_try self dk rnd d rd)")
  case (Inl e)
  then show ?thesis by (simp add: predict_yield_fst yield_fallback_def)
next
  case (Inr r)
  then obtain y i where "yield_record d y i = Inr r"
    using yield_try_Inr by blast
  then obtain c where c: "yield_confidence d = Inr c" and r: "confidence r = min 98 c"
    using yield_record_Inr by blast
  from yield_confidence_Inr [OF c] yield_confidence_range [OF c] r Inr show ?thesis
    by (auto simp add: predict_yield_fst)
qed

text \<open>The example input with trained models (94) and over an empty directory (70).\<close>

theorem yield_confidence_bounds_witness:
  "fst (yield_try sample_predictor (trained_disk 1500) sample_draw sample_input []) =
     Inr \<lparr>expectedYield = Fin 4.2, yieldIncrease = 13,
          limitingFactors = [''No major limiting factors detected''], confidence = 94\<rparr>
   \<and> confidence (fst (predict_yield sample_predictor (trained_disk 1500) sample_draw
        sample_input [])) = 94
   \<and> fst (yield_try (fst (new_predictor empty_disk ''models'' [])) empty_disk sample_draw
        sample_input []) = Inl FileNotFoundError
   \<and> confidence (fst (predict_yield (fst (new_predictor empty_disk ''models'' [])) empty_disk
        sample_draw sample_input [])) = 70"
  using yield_confidence_bounds [of sample_predictor "trained_disk 1500" sample_draw
      sample_input "[]"]
    yield_confidence_bounds [of "fst (new_predictor empty_disk ''models'' [])" empty_disk
      sample_draw sample_input "[]"]
  by (auto simp add: trained_yield_try empty_disk_tries sample_input_fields)

section \<open>Claim C8: risk scores\<close>

text \<open>
  Claim C8. When \<open>predict_all\<close> returns a result, its water stress is
  \<open>(litersPerAcre - 1000) / 20\<close> clamped into 0 to 100, its nutrient deficiency is
  \<open>(N + P + K - 200) / 5\<close> clamped into 0 to 100, its climate risk is
  \<open>|temperature - 25| * 2\<close> clamped into 0 to 100, and its overall risk is High when the
  three triggers (liters per acre above 2000, nitrogen above 150, yield confidence below 80)
  all hold, Medium when one or two of them hold, and Low when none holds.
\<close>

theorem risk_assessment_scores:
  assumes "fst (predict_all self dk rnd d rd) = Inr res"
  shows "waterStress (riskAssessment res) =
           clamp 0 100 ((of_int (litersPerAcre (irrigation res)) - 1000) / 20)
     \<and> nutrientDeficiency (riskAssessment res) =
           clamp 0 100 ((of_int (nitrogen (fertilizer res) + phosphorus (fertilizer res)
                                 + potassium (fertilizer res)) - 200) / 5)
     \<and> (\<exists>t. field d ''weather'' ''temperature'' = Inr (JNum t)
            \<and> climateRisk (riskAssessment res) = clamp 0 100 (\<bar>t - 25\<bar> * 2))
     \<and> overallRisk (riskAssessment res) =
          (if 2000 < litersPerAcre (irrigation res) \<and> 150 < nitrogen (fertilizer res)
              \<and> confidence (yieldPrediction res) < 80 then ''High''
           else if 2000 < litersPerAcre (irrigation res) \<or> 150 < nitrogen (fertilizer res)
              \<or> confidence (yieldPrediction res) < 80 then ''Medium''
           else ''Low'')"
proof -
  from assms obtain t where t: "field d ''weather'' ''temperature'' = Inr (JNum t)"
    and r: "riskAssessment res =
       assess_risk (irrigation res) (fertilizer res) (yieldPrediction res) t"
    by (rule predict_all_Inr)
  show ?thesis
    unfolding r assess_risk_scores overall_risk_by_triggers using t by blast
qed

text \<open>A regressor that answers 2500 liters: one trigger holds, the overall risk is Medium.\<close>

theorem risk_assessment_scores_witness:
  "\<exists>res. fst (predict_all sample_predictor (trained_disk 2500) sample_randomness sample_input [])
       = Inr res
     \<and> litersPerAcre (irrigation res) = 2500 \<and> nitrogen (fertilizer res) = 120
     \<and> confidence (yieldPrediction res) = 94
     \<and> waterStress (riskAssessment res) = 75
     \<and> nutrientDeficiency (riskAssessment res) = 4.4
     \<and> climateRisk (riskAssessment res) = 0
     \<and> overallRisk (riskAssessment res) = ''Medium''"
proof -
  have "fst (predict_all sample_predictor (trained_disk 2500) sample_randomness sample_input [])
    = Inr \<lparr>irrigation = fst (predict_irrigation sample_predictor (trained_disk 2500) sample_draw
              sample_input []),
           fertilizer = fst (predict_fertilizer sample_predictor (trained_disk 2500) sample_draw
              sample_input []),
           yieldPrediction = fst (predict_yield sample_predictor (trained_disk 2500) sample_draw
              sample_input []),
           riskAssessment =
             assess_risk (fst (predict_irrigation sample_predictor (trained_disk 2500) sample_draw
                 sample_input []))
               (fst (predict_fertilizer sample_predictor (trained_disk 2500) sample_draw
                 sample_input []))
               (fst (predict_yield sample_predictor (trained_disk 2500) sample_draw
                 sample_input [])) 25,
           sustainabilityTip = sustainability_tips ! (3 mod length sustainability_tips),
           economicImpact =
             estimate_economic_impact
               (fst (predict_irrigation sample_predictor (trained_disk 2500) sample_draw
                 sample_input []))
               (fst (predict_fertilizer sample_predictor (trained_disk 2500) sample_draw
                 sample_input []))
               (fst (predict_yield sample_predictor (trained_disk 2500) sample_draw
                 sample_input []))\<rparr>"
    (is "_ = Inr ?res")
    by (simp add: predict_all_fst sample_input_fields sample_randomness_def)
  from risk_assessment_scores [OF this] this show ?thesis
    by (simp add: trained_predict_irrigation_2500 trained_predict_fertilizer
        trained_predict_yield sample_input_fields clamp_def)
qed

section \<open>Claim C9: crop encoding\<close>

text \<open>
  Claim C9. For an input with finite measurements and any crop type, \<open>_prepare_features\<close>
  returns (it does not raise) and its component 13 is the crop code. The code is 0 when the
  crop type is not in the list of known crops, whatever value it is, and the first position
  of the crop in the list when it is in the list.
\<close>

theorem unknown_crop_encoded_zero:
  assumes "finite_measurements d" and "subscript d ''cropType'' = Inr c"
  shows "\<exists>fs. prepare_features self rnd d = Inr fs \<and> length fs = 17
     \<and> fs ! 13 = JNum (of_nat (encode_crop (crop_types self) c))
     \<and> ((\<forall>s \<in> set (crop_types self). c \<noteq> JStr s) \<longrightarrow>
          encode_crop (crop_types self) c = 0 \<and> fs ! 13 = JNum 0)
     \<and> (\<forall>s \<in> set (crop_types self). c = JStr s \<longrightarrow>
          encode_crop (crop_types self) c = index (crop_types self) s
          \<and> index (crop_types self) s < length (crop_types self)
          \<and> crop_types self ! index (crop_types self) s = s
          \<and> (\<forall>j < index (crop_types self) s. crop_types self ! j \<noteq> s))"
proof -
  from assms(1) obtain ph n p k om t rain hum sun where f:
    "field d ''soil'' ''ph'' = Inr (JNum ph)"
    "field d ''soil'' ''nitrogen'' = Inr (JNum n)"
    "field d ''soil'' ''phosphorus'' = Inr (JNum p)"
    "field d ''soil'' ''potassium'' = Inr (JNum k)"
    "field d ''soil'' ''organicMatter'' = Inr (JNum om)"
    "field d ''weather'' ''temperature'' = Inr (JNum t)"
    "field d ''weather'' ''rainfall'' = Inr (JNum rain)"
    "field d ''weather'' ''humidity'' = Inr (JNum hum)"
    "field d ''weather'' ''sunlightHours'' = Inr (JNum sun)"
    and r: "in_float_range ph" "in_float_range n" "in_float_range p" "in_float_range k"
    "in_float_range t"
    by (rule finite_measurements_fields)
  note pf = prepare_features_numbers [OF f assms(2) r, of self rnd]
  have unknown: "encode_crop (crop_types self) c = 0"
    if "\<forall>s \<in> set (crop_types self). c \<noteq> JStr s"
    using that by (cases c) (auto simp add: encode_crop_def)
  show ?thesis
    unfolding pf using unknown
    by (auto simp add: encode_crop_def index_less nth_index index_first)
qed

text \<open>
  Under the default crop list \<open>dragonfruit\<close> and the number 7 are unknown and get 0, and
  \<open>wheat\<close> is at position 1.
\<close>

theorem unknown_crop_encoded_zero_witness:
  "finite_measurements (sample_input_with_crop (JStr ''dragonfruit''))
   \<and> ''dragonfruit'' \<notin> set (crop_types (fst (new_predictor empty_disk ''models'' [])))
   \<and> (\<exists>fs. prepare_features (fst (new_predictor empty_disk ''models'' [])) sample_draw
              (sample_input_with_crop (JStr ''dragonfruit'')) = Inr fs
          \<and> fs ! 13 = JNum 0)
   \<and> (\<exists>fs. prepare_features (fst (new_predictor empty_disk ''models'' [])) sample_draw
              (sample_input_with_crop (JNum 7)) = Inr fs
          \<and> fs ! 13 = JNum 0)
   \<and> ''wheat'' \<in> set (crop_types (fst (new_predictor empty_disk ''models'' [])))
   \<and> (\<exists>fs. prepare_features (fst (new_predictor empty_disk ''models'' [])) sample_draw
              (sample_input_with_crop (JStr ''wheat'')) = Inr fs
          \<and> fs ! 13 = JNum 1)"
  using unknown_crop_encoded_zero [where d = "sample_input_with_crop (JStr ''dragonfruit'')"
      and c = "JStr ''dragonfruit''" and self = "fst (new_predictor empty_disk ''models'' [])"
      and rnd = sample_draw]
    unknown_crop_encoded_zero [where d = "sample_input_with_crop (JNum 7)"
      and c = "JNum 7" and self = "fst (new_predictor empty_disk ''models'' [])"
      and rnd = sample_draw]
    unknown_crop_encoded_zero [where d = "sample_input_with_crop (JStr ''wheat'')"
      and c = "JStr ''wheat''" and self = "fst (new_predictor empty_disk ''models'' [])"
      and rnd = sample_draw]
  by (auto simp add: finite_sample_input_with_crop sample_input_with_crop_fields
      new_predictor_empty_disk default_crop_positions)

section \<open>Claim C10: missing required fields\<close>

text \<open>
  Claim C10. \<open>predict_all\<close> raises KeyError on an input without the key \<open>cropType\<close>,
  without the key \<open>weather\<close>, or without the key \<open>temperature\<close> under \<open>weather\<close>,
  whatever the models directory holds. In general it returns a result exactly when the
  input has the key \<open>cropType\<close> and a number under \<open>weather\<close>, \<open>temperature\<close>.
\<close>

theorem predict_all_raises_without_required_fields:
  "fst (predict_all self dk rnd no_crop_input rd) = Inl (KeyError ''cropType'')
   \<and> fst (predict_all self dk rnd no_weather_input rd) = Inl (KeyError ''weather'')
   \<and> fst (predict_all self dk rnd no_temperature_input rd) = Inl (KeyError ''temperature'')
   \<and> ((\<exists>res. fst (predict_all self dk rnd d rd) = Inr res)
        \<longleftrightarrow> (\<exists>c t. subscript d ''cropType'' = Inr c
                   \<and> field d ''weather'' ''temperature'' = Inr (JNum t)))"
proof -
  have 1: "fst (predict_all self dk rnd no_crop_input rd) = Inl (KeyError ''cropType'')"
    by (simp add: predict_all_fst no_crop_input_def)
  have 2: "fst (predict_all self dk rnd no_weather_input rd) = Inl (KeyError ''weather'')"
    by (simp add: predict_all_fst no_weather_input_def field_def)
  have 3: "fst (predict_all self dk rnd no_temperature_input rd) = Inl (KeyError ''temperature'')"
    by (simp add: predict_all_fst no_temperature_input_def field_def)
  have 4: "(\<exists>res. fst (predict_all self dk rnd d rd) = Inr res)
        \<longleftrightarrow> (\<exists>c t. subscript d ''cropType'' = Inr c
                   \<and> field d ''weather'' ''temperature'' = Inr (JNum t))"
  proof
    assume "\<exists>res. fst (predict_all self dk rnd d rd) = Inr res"
    then obtain res where "fst (predict_all self dk rnd d rd) = Inr res" ..
    then show "\<exists>c t. subscript d ''cropType'' = Inr c
                   \<and> field d ''weather'' ''temperature'' = Inr (JNum t)"
      by (elim predict_all_Inr) blast
  next
    assume "\<exists>c t. subscript d ''cropType'' = Inr c
                   \<and> field d ''weather'' ''temperature'' = Inr (JNum t)"
    then obtain c t where "subscript d ''cropType'' = Inr c"
      and "field d ''weather'' ''temperature'' = Inr (JNum t)" by blast
    then show "\<exists>res. fst (predict_all self dk rnd d rd) = Inr res"
      by (simp add: predict_all_fst)
  qed
  from 1 2 3 4 show ?thesis by blast
qed

end
